theory Spec2Isabelle
  imports Complex_Main
begin

section \<open>Data model\<close>

text \<open>
  A cell of a frame or a series is a Python float: either a number or the
  not-a-number placeholder \<open>np.nan\<close>.  The functions verified here only move
  cells around; all arithmetic on them happens inside the scaler and the regressor.
\<close>

datatype fval = Num real | NaN

text \<open>
  The index of a series or a frame: a \<open>pd.DatetimeIndex\<close> (its timestamps as
  integers) or any other index (a \<open>pd.RangeIndex\<close> among them), its labels as
  integers.
\<close>

datatype index = DatetimeIndex "int list" | PlainIndex "int list"

fun index_len :: "index \<Rightarrow> nat" where
  "index_len (DatetimeIndex ts) = length ts"
| "index_len (PlainIndex ls) = length ls"

record frame =
  columns :: "string list"
  index :: index
  rows :: "fval list list"

record series =
  s_index :: index
  s_values :: "fval list"
  s_name :: "string option"

text \<open>A Python value handed to a function that tests it with \<open>isinstance\<close>.\<close>

datatype pyobj = DataFrameObj frame | SeriesObj series | OtherObj

text \<open>
  The exceptions, one constructor for each kind that the module raises itself:
  \<^item> \<open>TypeMismatch\<close>: the \<open>TypeError\<close> of \<open>fit\<close>, \<open>predict\<close> and \<open>make_lag_features\<close>;
  \<^item> \<open>LengthMismatch\<close>: \<open>ValueError("X and y must have the same length")\<close>;
  \<^item> \<open>NotFitted\<close>: \<open>RuntimeError("Model must be fitted before calling predict")\<close>;
  \<^item> \<open>SchemaMismatch\<close>: \<open>ValueError("X_future must have the same feature columns as the training data")\<close>;
  \<^item> \<open>InsufficientData\<close>: \<open>ValueError("series must contain more observations than `lags`")\<close> and
    \<open>ValueError("series must have at least `lags` observations")\<close>;
  \<^item> \<open>InvalidLags\<close>: \<open>ValueError("lags must be >= 1")\<close>;
  \<^item> \<open>LibraryError\<close>: any exception that leaves a call into pandas, numpy or scikit-learn
    and is not caught by the module.
\<close>

datatype error =
    TypeMismatch
  | LengthMismatch
  | NotFitted
  | SchemaMismatch
  | InsufficientData
  | InvalidLags
  | LibraryError

section \<open>Python sequences\<close>

text \<open>A slice bound of Python: a negative bound counts from the end, and both ends are clamped.\<close>

definition slice_bound :: "nat \<Rightarrow> int \<Rightarrow> nat" where
  "slice_bound n i = (if i < 0 then nat (max 0 (int n + i)) else min (nat i) n)"

text \<open>\<open>xs[i:j]\<close>\<close>

definition py_slice :: "'a list \<Rightarrow> int \<Rightarrow> int \<Rightarrow> 'a list" where
  "py_slice xs i j =
     (let a = slice_bound (length xs) i; b = slice_bound (length xs) j
      in take (b - a) (drop a xs))"

text \<open>\<open>xs[i:]\<close>\<close>

definition py_slice_from :: "'a list \<Rightarrow> int \<Rightarrow> 'a list" where
  "py_slice_from xs i = drop (slice_bound (length xs) i) xs"

text \<open>\<open>xs[i]\<close>, which raises \<open>IndexError\<close> out of range.\<close>

definition py_index :: "'a list \<Rightarrow> int \<Rightarrow> 'a option" where
  "py_index xs i =
     (let n = int (length xs); j = (if i < 0 then n + i else i)
      in if 0 \<le> j \<and> j < n then Some (xs ! nat j) else None)"

text \<open>\<open>range(a, b)\<close>\<close>

definition py_range :: "int \<Rightarrow> int \<Rightarrow> int list" where
  "py_range a b = [a..b - 1]"

text \<open>\<open>x or d\<close> on an optional string: \<open>None\<close> and the empty string are falsy.\<close>

definition name_or :: "string option \<Rightarrow> string \<Rightarrow> string" where
  "name_or nm d = (case nm of None \<Rightarrow> d | Some s \<Rightarrow> if s = [] then d else s)"

text \<open>The decimal digits of a number, as an f-string prints it.\<close>

fun string_of_nat :: "nat \<Rightarrow> string" where
  "string_of_nat n =
     (if n < 10 then [char_of (48 + n)]
      else string_of_nat (n div 10) @ [char_of (48 + n mod 10)])"

definition string_of_int :: "int \<Rightarrow> string" where
  "string_of_int i = (if i < 0 then CHR ''-'' # string_of_nat (nat (- i)) else string_of_nat (nat i))"

text \<open>\<open>[f"lag{i}" for i in range(1, lags + 1)]\<close>\<close>

definition lag_columns :: "int \<Rightarrow> string list" where
  "lag_columns lags = map (\<lambda>i. ''lag'' @ string_of_int i) (py_range 1 (lags + 1))"

declare string_of_nat.simps [simp del]

section \<open>The libraries\<close>

text \<open>
  The module calls into pandas and scikit-learn.  Their numerical work is not part of
  the module and is taken as a parameter: a record of functions, one for each library
  call whose result the module uses.  A result \<open>None\<close> stands for a raised exception.
  An estimator object of scikit-learn exists before it is fitted.
\<close>

datatype 'a estimator = Unfitted | Fitted 'a

record ('k, 'sc, 'g) library =
  default_kernel :: 'k
    \<comment> \<open>\<open>C(1.0, (1e-3, 1e3)) * RBF(...) + WhiteKernel(...)\<close>\<close>
  scaler_fit_transform :: "fval list list \<Rightarrow> ('sc \<times> fval list list) option"
    \<comment> \<open>\<open>StandardScaler.fit_transform\<close>: the fitted parameters and the scaled matrix\<close>
  scaler_transform :: "'sc estimator \<Rightarrow> fval list list \<Rightarrow> fval list list option"
  scaler_inverse_transform :: "'sc estimator \<Rightarrow> fval list list \<Rightarrow> fval list list option"
  scaler_scale :: "'sc estimator \<Rightarrow> fval option"
    \<comment> \<open>\<open>float(scaler.scale_)\<close>\<close>
  float_mul :: "fval \<Rightarrow> fval \<Rightarrow> fval"
  gpr_fit :: "'k \<Rightarrow> fval \<Rightarrow> int \<Rightarrow> fval list list \<Rightarrow> fval list \<Rightarrow> 'g option"
    \<comment> \<open>\<open>GaussianProcessRegressor(kernel, alpha, n_restarts_optimizer).fit(Xs, ys)\<close>\<close>
  gpr_predict :: "'g estimator \<Rightarrow> fval list list \<Rightarrow> (fval list \<times> fval list) option"
    \<comment> \<open>\<open>predict(Xs, return_std=True)\<close>: the means and the standard deviations\<close>
  infer_freq :: "int list \<Rightarrow> string option"
    \<comment> \<open>\<open>pd.infer_freq\<close>; \<open>None\<close> also when it raises, which the caller catches\<close>
  date_range :: "int \<Rightarrow> int \<Rightarrow> string \<Rightarrow> int list option"
    \<comment> \<open>\<open>pd.date_range(start, periods, freq)\<close>\<close>

text \<open>
  \<open>pd.Series(values, index, name)\<close> and \<open>pd.DataFrame(rows, columns, index)\<close>: pandas
  raises when the shape of the data and the labels disagree.
\<close>

definition mk_series :: "fval list \<Rightarrow> index \<Rightarrow> string \<Rightarrow> series option" where
  "mk_series vals idx nm =
     (if length vals \<noteq> index_len idx then None
      else Some \<lparr>s_index = idx, s_values = vals, s_name = Some nm\<rparr>)"

definition mk_frame :: "fval list list \<Rightarrow> string list \<Rightarrow> index \<Rightarrow> frame option" where
  "mk_frame rs cols idx =
     (if list_all (\<lambda>r. length r = length cols) rs \<and> length rs = index_len idx
      then Some \<lparr>columns = cols, index = idx, rows = rs\<rparr>
      else None)"

text \<open>\<open>index[i:]\<close>\<close>

fun index_slice_from :: "index \<Rightarrow> int \<Rightarrow> index" where
  "index_slice_from (DatetimeIndex ts) i = DatetimeIndex (py_slice_from ts i)"
| "index_slice_from (PlainIndex ls) i = PlainIndex (py_slice_from ls i)"

text \<open>
  \<open>DataFrame.reindex(columns=cols)\<close>: the frame conformed to the given column labels.
  A requested label that the frame does not have gives a column of \<open>NaN\<close>; pandas raises
  only when the frame's own labels differ from the requested ones and are not unique
  ("cannot reindex on an axis with duplicate labels").  With \<open>columns=None\<close> the columns
  stay as they are.
\<close>

definition reindex_columns :: "frame \<Rightarrow> string list option \<Rightarrow> frame option" where
  "reindex_columns f target =
     (case target of
        None \<Rightarrow> Some f
      | Some cols \<Rightarrow>
          if columns f = cols then Some f
          else if \<not> distinct (columns f) then None
          else Some (f\<lparr>columns := cols,
                      rows := map (\<lambda>r. map (\<lambda>c. case map_of (zip (columns f) r) c of
                                                     None \<Rightarrow> NaN | Some v \<Rightarrow> v) cols)
                                 (rows f)\<rparr>))"

section \<open>GaussianProcessProjection\<close>

record ('k, 'sc, 'g) gp_model =
  kernel :: 'k
  normalize_y :: bool
  n_restarts_optimizer :: int
  alpha :: fval
  scaler_X :: "'sc estimator"
  scaler_y :: "'sc estimator option"
  gpr :: "'g estimator option"
  feature_columns :: "string list option"
  is_fitted :: bool

text \<open>\<open>__init__\<close>\<close>

definition gp_init ::
  "('k, 'sc, 'g) library \<Rightarrow> 'k option \<Rightarrow> bool \<Rightarrow> int \<Rightarrow> fval \<Rightarrow> ('k, 'sc, 'g) gp_model" where
  "gp_init lib kernel_arg normalize_y_arg n_restarts_arg alpha_arg =
     \<lparr>kernel = (case kernel_arg of None \<Rightarrow> default_kernel lib | Some k \<Rightarrow> k),
      normalize_y = normalize_y_arg,
      n_restarts_optimizer = n_restarts_arg,
      alpha = alpha_arg,
      scaler_X = Unfitted,
      scaler_y = (if normalize_y_arg then Some Unfitted else None),
      gpr = None,
      feature_columns = None,
      is_fitted = False\<rparr>"

text \<open>\<open>reshape(-1, 1)\<close> of a vector and \<open>ravel()\<close> of a matrix.\<close>

definition as_column :: "fval list \<Rightarrow> fval list list" where
  "as_column vs = map (\<lambda>v. [v]) vs"

definition ravel :: "fval list list \<Rightarrow> fval list" where
  "ravel M = concat M"

text \<open>
  \<open>fit\<close>: the outcome (\<open>None\<close> when it returns \<open>self\<close>, the exception otherwise) and the
  object's state after the call.  The assignments to \<open>self\<close> happen in the order of the
  source, so a call that fails half-way leaves the assignments made before the failure.
\<close>

definition fit ::
  "('k, 'sc, 'g) library \<Rightarrow> ('k, 'sc, 'g) gp_model \<Rightarrow> pyobj \<Rightarrow> pyobj
     \<Rightarrow> error option \<times> ('k, 'sc, 'g) gp_model" where
  "fit lib m X y =
     (case X of
        DataFrameObj Xf \<Rightarrow>
          (case y of
             SeriesObj ys \<Rightarrow>
               if length (rows Xf) \<noteq> length (s_values ys) then (Some LengthMismatch, m)
               else
                 let m1 = m\<lparr>feature_columns := Some (columns Xf)\<rparr> in
                 (case scaler_fit_transform lib (rows Xf) of
                    None \<Rightarrow> (Some LibraryError, m1)
                  | Some (sx, Xs) \<Rightarrow>
                      let m2 = m1\<lparr>scaler_X := Fitted sx\<rparr>;
                          y_vals = as_column (s_values ys) in
                      (case (if normalize_y m2 then
                               (case scaler_y m2 of
                                  None \<Rightarrow> Inl m2
                                | Some _ \<Rightarrow>
                                    (case scaler_fit_transform lib y_vals of
                                       None \<Rightarrow> Inl m2
                                     | Some (sy, Ys) \<Rightarrow>
                                         Inr (m2\<lparr>scaler_y := Some (Fitted sy)\<rparr>, ravel Ys)))
                             else Inr (m2, ravel y_vals)) of
                         Inl m_err \<Rightarrow> (Some LibraryError, m_err)
                       | Inr (m3, ys_scaled) \<Rightarrow>
                           let m4 = m3\<lparr>gpr := Some Unfitted\<rparr> in
                           (case gpr_fit lib (kernel m4) (alpha m4) (n_restarts_optimizer m4)
                                   Xs ys_scaled of
                              None \<Rightarrow> (Some LibraryError, m4)
                            | Some g \<Rightarrow>
                                (None, m4\<lparr>gpr := Some (Fitted g), is_fitted := True\<rparr>))))
           | _ \<Rightarrow> (Some TypeMismatch, m))
      | _ \<Rightarrow> (Some TypeMismatch, m))"

text \<open>What \<open>predict\<close> returns: one series, or the pair asked for with \<open>return_std=True\<close>.\<close>

datatype prediction = Point series | WithStd series series

text \<open>The column alignment of \<open>predict\<close> (the \<open>try\<close> block).\<close>

definition align_columns :: "('k, 'sc, 'g) gp_model \<Rightarrow> frame \<Rightarrow> error + frame" where
  "align_columns m X_future =
     (if Some (columns X_future) \<noteq> feature_columns m then
        (case reindex_columns X_future (feature_columns m) of
           None \<Rightarrow> Inl SchemaMismatch
         | Some X' \<Rightarrow> Inr X')
      else Inr X_future)"

text \<open>The rest of \<open>predict\<close>, from the aligned frame on.\<close>

definition predict_aligned ::
  "('k, 'sc, 'g) library \<Rightarrow> ('k, 'sc, 'g) gp_model \<Rightarrow> frame \<Rightarrow> bool \<Rightarrow> error + prediction" where
  "predict_aligned lib m X_future return_std =
     (case scaler_transform lib (scaler_X m) (rows X_future) of
        None \<Rightarrow> Inl LibraryError
      | Some Xf_scaled \<Rightarrow>
          (case gpr m of
             None \<Rightarrow> Inl LibraryError
           | Some g \<Rightarrow>
               (case gpr_predict lib g Xf_scaled of
                  None \<Rightarrow> Inl LibraryError
                | Some (y_pred_scaled, y_std0) \<Rightarrow>
                    (case (if normalize_y m then
                             (case scaler_y m of
                                None \<Rightarrow> None
                              | Some sy \<Rightarrow>
                                  (case scaler_inverse_transform lib sy (as_column y_pred_scaled) of
                                     None \<Rightarrow> None
                                   | Some Y \<Rightarrow>
                                       (case scaler_scale lib sy of
                                          None \<Rightarrow> None
                                        | Some sc \<Rightarrow>
                                            Some (ravel Y, map (\<lambda>s. float_mul lib s sc) y_std0))))
                           else Some (y_pred_scaled, y_std0)) of
                       None \<Rightarrow> Inl LibraryError
                     | Some (y_pred, y_std) \<Rightarrow>
                         (case mk_series y_pred (index X_future) ''gp_projection'' of
                            None \<Rightarrow> Inl LibraryError
                          | Some y_series \<Rightarrow>
                              if return_std then
                                (case mk_series y_std (index X_future) ''gp_std'' of
                                   None \<Rightarrow> Inl LibraryError
                                 | Some std_series \<Rightarrow> Inr (WithStd y_series std_series))
                              else Inr (Point y_series))))))"

text \<open>
  \<open>predict\<close>: what the call returns or raises, and the object's state after the call.
  The method assigns to no attribute of \<open>self\<close>, and \<open>transform\<close>,
  \<open>inverse_transform\<close> and \<open>predict\<close> of scikit-learn read their estimator only.
\<close>

definition predict ::
  "('k, 'sc, 'g) library \<Rightarrow> ('k, 'sc, 'g) gp_model \<Rightarrow> pyobj \<Rightarrow> bool
     \<Rightarrow> (error + prediction) \<times> ('k, 'sc, 'g) gp_model" where
  "predict lib m X_future return_std =
     (if \<not> is_fitted m then (Inl NotFitted, m)
      else
        (case X_future of
           DataFrameObj Xf \<Rightarrow>
             (case align_columns m Xf of
                Inl e \<Rightarrow> (Inl e, m)
              | Inr X' \<Rightarrow> (predict_aligned lib m X' return_std, m))
         | _ \<Rightarrow> (Inl TypeMismatch, m)))"

section \<open>make\_lag\_features\<close>

text \<open>
  The loop that builds the future rows: \<open>n\<close> iterations are left, \<open>window\<close> is the
  current window (newest last) and \<open>X_future\<close> the rows appended so far.
\<close>

fun lag_rows :: "nat \<Rightarrow> fval list \<Rightarrow> fval list list \<Rightarrow> fval list list" where
  "lag_rows 0 window X_future = X_future"
| "lag_rows (Suc n) window X_future =
     lag_rows n (py_slice_from window 1 @ [NaN]) (X_future @ [rev window])"

text \<open>The index of the future rows.\<close>

definition future_index_of ::
  "('k, 'sc, 'g) library \<Rightarrow> index \<Rightarrow> int \<Rightarrow> string option \<Rightarrow> index option" where
  "future_index_of lib idx n_steps freq =
     (case idx of
        DatetimeIndex ts \<Rightarrow>
          (case (if freq = None then infer_freq lib ts else freq) of
             Some fq \<Rightarrow>
               (case py_index ts (- 1) of
                  None \<Rightarrow> None
                | Some start \<Rightarrow>
                    (case date_range lib start (n_steps + 1) fq of
                       None \<Rightarrow> None
                     | Some ds \<Rightarrow> Some (DatetimeIndex (py_slice_from ds 1))))
           | None \<Rightarrow> Some (PlainIndex (py_range 0 n_steps)))
      | PlainIndex _ \<Rightarrow> Some (PlainIndex (py_range 0 n_steps)))"

definition make_lag_features ::
  "('k, 'sc, 'g) library \<Rightarrow> pyobj \<Rightarrow> int \<Rightarrow> int \<Rightarrow> string option \<Rightarrow> error + frame" where
  "make_lag_features lib series_arg lags n_steps freq =
     (case series_arg of
        SeriesObj s \<Rightarrow>
          if lags < 1 then Inl InvalidLags
          else
            let last_vals = s_values s in
            if int (length last_vals) < lags then Inl InsufficientData
            else
              (case future_index_of lib (s_index s) n_steps freq of
                 None \<Rightarrow> Inl LibraryError
               | Some future_index \<Rightarrow>
                   let X_future = lag_rows (nat n_steps) (py_slice_from last_vals (- lags)) [] in
                   (case mk_frame X_future (lag_columns lags) future_index of
                      None \<Rightarrow> Inl LibraryError
                    | Some df \<Rightarrow> Inr df))
      | _ \<Rightarrow> Inl TypeMismatch)"

section \<open>project\_with\_autoregression\<close>

text \<open>
  The keyword arguments for the model; an absent key takes the default of \<open>__init__\<close>.
\<close>

record 'k gp_kwargs =
  kw_kernel :: "'k option"
  kw_normalize_y :: "bool option"
  kw_n_restarts_optimizer :: "int option"
  kw_alpha :: "fval option"

definition gp_init_kwargs ::
  "('k, 'sc, 'g) library \<Rightarrow> 'k gp_kwargs \<Rightarrow> ('k, 'sc, 'g) gp_model" where
  "gp_init_kwargs lib kw =
     gp_init lib (kw_kernel kw)
       (case kw_normalize_y kw of None \<Rightarrow> True | Some b \<Rightarrow> b)
       (case kw_n_restarts_optimizer kw of None \<Rightarrow> 5 | Some n \<Rightarrow> n)
       (case kw_alpha kw of None \<Rightarrow> Num (1 / 10 ^ 10) | Some a \<Rightarrow> a)"

text \<open>
  The loop that builds the supervised data set, over the values \<open>ts\<close> of \<open>t\<close> that are
  left, with the rows and targets appended so far.
\<close>

fun supervised_rows ::
  "fval list \<Rightarrow> int \<Rightarrow> int list \<Rightarrow> fval list list \<Rightarrow> fval list
     \<Rightarrow> error + (fval list list \<times> fval list)" where
  "supervised_rows vals lags [] X_rows y_rows = Inr (X_rows, y_rows)"
| "supervised_rows vals lags (t # ts) X_rows y_rows =
     (let window = py_slice vals (t - lags) t in
      case py_index vals t of
        None \<Rightarrow> Inl LibraryError
      | Some target \<Rightarrow> supervised_rows vals lags ts (X_rows @ [rev window]) (y_rows @ [target]))"

text \<open>
  One iteration of the forecasting loop up to \<open>yhat\<close>: the one-row frame of the
  reversed window, \<open>model.predict(features).iloc[0]\<close>, and the model after the call.
\<close>

definition predict_step ::
  "('k, 'sc, 'g) library \<Rightarrow> ('k, 'sc, 'g) gp_model \<Rightarrow> string list \<Rightarrow> fval list
     \<Rightarrow> (error + fval) \<times> ('k, 'sc, 'g) gp_model" where
  "predict_step lib model cols window =
     (case mk_frame [rev window] cols (PlainIndex (py_range 0 1)) of
        None \<Rightarrow> (Inl LibraryError, model)
      | Some features \<Rightarrow>
          (case predict lib model (DataFrameObj features) False of
             (Inl e, model') \<Rightarrow> (Inl e, model')
           | (Inr (Point ys), model') \<Rightarrow>
               (case py_index (s_values ys) 0 of
                  None \<Rightarrow> (Inl LibraryError, model')
                | Some yhat \<Rightarrow> (Inr yhat, model'))
           | (Inr (WithStd _ _), model') \<Rightarrow> (Inl LibraryError, model')))"

text \<open>
  The forecasting loop: \<open>n\<close> iterations are left, \<open>window\<close> is the current window and
  \<open>preds\<close> the forecasts appended so far.
\<close>

fun rollout ::
  "('k, 'sc, 'g) library \<Rightarrow> ('k, 'sc, 'g) gp_model \<Rightarrow> string list \<Rightarrow> nat \<Rightarrow> fval list
     \<Rightarrow> fval list \<Rightarrow> error + fval list" where
  "rollout lib model cols 0 window preds = Inr preds"
| "rollout lib model cols (Suc n) window preds =
     (case predict_step lib model cols window of
        (Inl e, _) \<Rightarrow> Inl e
      | (Inr yhat, model') \<Rightarrow>
          rollout lib model' cols n (py_slice_from window 1 @ [yhat]) (preds @ [yhat]))"

text \<open>The supervised data set of the function: the frame \<open>X\<close> and the series \<open>y\<close>.\<close>

definition supervised_dataset :: "series \<Rightarrow> int \<Rightarrow> error + (frame \<times> series)" where
  "supervised_dataset s lags =
     (let vals = s_values s in
      case supervised_rows vals lags (py_range lags (int (length vals))) [] [] of
        Inl e \<Rightarrow> Inl e
      | Inr (X_rows, y_rows) \<Rightarrow>
          (case mk_frame X_rows (lag_columns lags) (PlainIndex (py_range 0 (int (length X_rows)))) of
             None \<Rightarrow> Inl LibraryError
           | Some X \<Rightarrow>
               (case mk_series y_rows (index_slice_from (s_index s) lags) (name_or (s_name s) ''y'') of
                  None \<Rightarrow> Inl LibraryError
                | Some y \<Rightarrow> Inr (X, y))))"

definition project_with_autoregression ::
  "('k, 'sc, 'g) library \<Rightarrow> series \<Rightarrow> int \<Rightarrow> int \<Rightarrow> 'k gp_kwargs \<Rightarrow> error + series" where
  "project_with_autoregression lib s lags n_steps gp_kw =
     (if int (length (s_values s)) \<le> lags then Inl InsufficientData
      else
        (case supervised_dataset s lags of
           Inl e \<Rightarrow> Inl e
         | Inr (X, y) \<Rightarrow>
             (case fit lib (gp_init_kwargs lib gp_kw) (DataFrameObj X) (SeriesObj y) of
                (Some e, _) \<Rightarrow> Inl e
              | (None, model) \<Rightarrow>
                  (case make_lag_features lib (SeriesObj s) lags n_steps None of
                     Inl e \<Rightarrow> Inl e
                   | Inr X_future \<Rightarrow>
                       (case rollout lib model (columns X) (nat n_steps)
                               (py_slice_from (s_values s) (- lags)) [] of
                          Inl e \<Rightarrow> Inl e
                        | Inr preds \<Rightarrow>
                            (case mk_series preds (index X_future)
                                    (name_or (s_name s) ''gp_forecast'') of
                               None \<Rightarrow> Inl LibraryError
                             | Some result \<Rightarrow> Inr result))))))"

section \<open>Well-formed inputs and a concrete library\<close>

text \<open>A \<open>pd.Series\<close> has one index label for each value.\<close>

definition series_ok :: "series \<Rightarrow> bool" where
  "series_ok s = (index_len (s_index s) = length (s_values s))"

text \<open>
  A small library on which the functions can be run: the scaler leaves the data as it
  is and accepts \<open>NaN\<close> as \<open>StandardScaler\<close> does, an unfitted scaler raises, the
  regressor raises on \<open>NaN\<close> as \<open>GaussianProcessRegressor\<close> does and otherwise predicts
  the oldest lag of each row, and the frequency of three or more timestamps is one unit.
\<close>

definition demo_library :: "(unit, unit, unit) library" where
  "demo_library =
     \<lparr>default_kernel = (),
      scaler_fit_transform = (\<lambda>M. if M = [] then None else Some ((), M)),
      scaler_transform = (\<lambda>sc M. case sc of Unfitted \<Rightarrow> None | Fitted _ \<Rightarrow> Some M),
      scaler_inverse_transform = (\<lambda>sc M. case sc of Unfitted \<Rightarrow> None | Fitted _ \<Rightarrow> Some M),
      scaler_scale = (\<lambda>sc. case sc of Unfitted \<Rightarrow> None | Fitted _ \<Rightarrow> Some (Num 1)),
      float_mul = (\<lambda>a b. a),
      gpr_fit = (\<lambda>k a n Xs ys. Some ()),
      gpr_predict = (\<lambda>g Xs.
         if list_ex (\<lambda>r. list_ex (\<lambda>v. v = NaN) r) Xs then None
         else Some (map (\<lambda>r. if r = [] then Num 0 else last r) Xs, map (\<lambda>r. Num 0) Xs)),
      infer_freq = (\<lambda>ts. if length ts < 3 then None else Some ''D''),
      date_range = (\<lambda>start periods fq.
         if periods < 0 then None else Some (map (\<lambda>k. start + k) (py_range 0 periods)))\<rparr>"

definition demo_series :: series where
  "demo_series =
     \<lparr>s_index = PlainIndex [0, 1, 2, 3, 4],
      s_values = [Num 1, Num 2, Num 3, Num 4, Num 5],
      s_name = None\<rparr>"

definition demo_kwargs :: "unit gp_kwargs" where
  "demo_kwargs =
     \<lparr>kw_kernel = None, kw_normalize_y = None, kw_n_restarts_optimizer = None, kw_alpha = None\<rparr>"

text \<open>A \<open>pd.DataFrame\<close> is rectangular and has one index label for each row.\<close>

definition frame_ok :: "frame \<Rightarrow> bool" where
  "frame_ok f =
     (list_all (\<lambda>r. length r = length (columns f)) (rows f) \<and> length (rows f) = index_len (index f))"

text \<open>The \<open>isinstance\<close> tests.\<close>

fun is_frame :: "pyobj \<Rightarrow> bool" where
  "is_frame (DataFrameObj _) = True"
| "is_frame _ = False"

fun is_series :: "pyobj \<Rightarrow> bool" where
  "is_series (SeriesObj _) = True"
| "is_series _ = False"

text \<open>
  The history of one model object: the calls made on it, in order.  \<open>after_calls\<close> is
  the state of the object after them, and \<open>fit_succeeded\<close> tells whether one of the
  calls of \<open>fit\<close> returned without raising.
\<close>

datatype call = FitCall pyobj pyobj | PredictCall pyobj bool

fun after_calls ::
  "('k, 'sc, 'g) library \<Rightarrow> ('k, 'sc, 'g) gp_model \<Rightarrow> call list \<Rightarrow> ('k, 'sc, 'g) gp_model" where
  "after_calls lib m [] = m"
| "after_calls lib m (FitCall X y # cs) = after_calls lib (snd (fit lib m X y)) cs"
| "after_calls lib m (PredictCall X rs # cs) = after_calls lib (snd (predict lib m X rs)) cs"

fun fit_succeeded ::
  "('k, 'sc, 'g) library \<Rightarrow> ('k, 'sc, 'g) gp_model \<Rightarrow> call list \<Rightarrow> bool" where
  "fit_succeeded lib m [] = False"
| "fit_succeeded lib m (FitCall X y # cs) =
     (fst (fit lib m X y) = None \<or> fit_succeeded lib (snd (fit lib m X y)) cs)"
| "fit_succeeded lib m (PredictCall X rs # cs) = fit_succeeded lib (snd (predict lib m X rs)) cs"

text \<open>
  Concrete inputs: the supervised data set of \<open>demo_series\<close> with two lags, the model
  that \<open>fit\<close> makes of it with the library above, a frame that lacks the column
  \<open>lag2\<close>, and a frame with the columns in another order and one column more.
\<close>

definition demo_train_X :: frame where
  "demo_train_X =
     \<lparr>columns = [''lag1'', ''lag2''], index = PlainIndex [0, 1, 2],
      rows = [[Num 2, Num 1], [Num 3, Num 2], [Num 4, Num 3]]\<rparr>"

definition demo_train_y :: series where
  "demo_train_y =
     \<lparr>s_index = PlainIndex [2, 3, 4], s_values = [Num 3, Num 4, Num 5], s_name = Some ''y''\<rparr>"

definition demo_model :: "(unit, unit, unit) gp_model" where
  "demo_model =
     \<lparr>kernel = (), normalize_y = True, n_restarts_optimizer = 5, alpha = Num (1 / 10 ^ 10),
      scaler_X = Fitted (), scaler_y = Some (Fitted ()), gpr = Some (Fitted ()),
      feature_columns = Some [''lag1'', ''lag2''], is_fitted = True\<rparr>"

definition demo_missing :: frame where
  "demo_missing = \<lparr>columns = [''lag1''], index = PlainIndex [0], rows = [[Num 5]]\<rparr>"

definition demo_swapped :: frame where
  "demo_swapped =
     \<lparr>columns = [''lag2'', ''extra'', ''lag1''], index = PlainIndex [7],
      rows = [[Num 4, Num 9, Num 5]]\<rparr>"

text \<open>
  Two more frames for the fitted models: the feature columns in the other order with a
  \<open>NaN\<close> cell, and a frame whose labels are a permutation of training columns that
  repeat a label, with the frame and the model of that training.
\<close>

definition demo_nan_swapped :: frame where
  "demo_nan_swapped =
     \<lparr>columns = [''lag2'', ''lag1''], index = PlainIndex [0], rows = [[NaN, Num 5]]\<rparr>"

definition dup_train_X :: frame where
  "dup_train_X =
     \<lparr>columns = [''a'', ''a'', ''b''], index = PlainIndex [0, 1, 2],
      rows = [[Num 1, Num 2, Num 3], [Num 4, Num 5, Num 6], [Num 7, Num 8, Num 9]]\<rparr>"

definition dup_model :: "(unit, unit, unit) gp_model" where
  "dup_model =
     \<lparr>kernel = (), normalize_y = True, n_restarts_optimizer = 5, alpha = Num (1 / 10 ^ 10),
      scaler_X = Fitted (), scaler_y = Some (Fitted ()), gpr = Some (Fitted ()),
      feature_columns = Some [''a'', ''a'', ''b''], is_fitted = True\<rparr>"

definition dup_query :: frame where
  "dup_query =
     \<lparr>columns = [''a'', ''b'', ''a''], index = PlainIndex [0],
      rows = [[Num 1, Num 3, Num 2]]\<rparr>"


section \<open>Python sequences: lemmas\<close>

lemma py_slice_from_one: "py_slice_from xs 1 = tl xs"
  by (simp add: py_slice_from_def slice_bound_def drop_Suc min_def) (cases xs; simp)

lemma py_slice_from_last:
  "0 < lags \<Longrightarrow> py_slice_from xs (- lags) = drop (length xs - nat lags) xs"
proof (cases "lags \<le> int (length xs)")
  case True
  assume "0 < lags"
  with True have "nat (int (length xs) - lags) = length xs - nat lags" by linarith
  with \<open>0 < lags\<close> True show ?thesis by (simp add: py_slice_from_def slice_bound_def max_def)
next
  case False
  assume "0 < lags"
  with False have "length xs - nat lags = 0" by linarith
  with \<open>0 < lags\<close> False show ?thesis by (simp add: py_slice_from_def slice_bound_def max_def)
qed

lemma py_slice_window:
  "0 \<le> a \<Longrightarrow> a \<le> b \<Longrightarrow> b \<le> int (length xs) \<Longrightarrow>
   py_slice xs a b = take (nat (b - a)) (drop (nat a) xs)"
proof -
  assume a: "0 \<le> a" "a \<le> b" "b \<le> int (length xs)"
  then have "nat b \<le> length xs" "nat a \<le> length xs" by linarith+
  moreover from a have "nat b - nat a = nat (b - a)" by linarith
  ultimately show ?thesis
    using a by (simp add: py_slice_def slice_bound_def Let_def min_def)
qed

lemma py_index_in_range:
  "0 \<le> i \<Longrightarrow> i < int (length xs) \<Longrightarrow> py_index xs i = Some (xs ! nat i)"
  by (simp add: py_index_def Let_def)

lemma supervised_rows_map:
  assumes "0 \<le> lags" and "\<forall>t \<in> set ts. lags \<le> t \<and> t < int (length vals)"
  shows "supervised_rows vals lags ts X_rows y_rows =
         Inr (X_rows @ map (\<lambda>t. rev (take (nat lags) (drop (nat (t - lags)) vals))) ts,
              y_rows @ map (\<lambda>t. vals ! nat t) ts)"
  using assms(2)
proof (induction ts arbitrary: X_rows y_rows)
  case Nil
  then show ?case by simp
next
  case (Cons t ts)
  from Cons.prems have t: "lags \<le> t" "t < int (length vals)" by auto
  with assms(1) have sl: "py_slice vals (t - lags) t = take (nat lags) (drop (nat (t - lags)) vals)"
    using py_slice_window [of "t - lags" t vals] by simp
  from t assms(1) have ix: "py_index vals t = Some (vals ! nat t)"
    by (intro py_index_in_range) auto
  from Cons.prems have rest: "\<forall>t \<in> set ts. lags \<le> t \<and> t < int (length vals)" by auto
  show ?case
    by (simp add: sl ix Cons.IH [OF rest])
qed

lemma py_range_length: "length (py_range a b) = nat (b - a)"
  by (simp add: py_range_def)

lemma py_range_nth: "k < nat (b - a) \<Longrightarrow> py_range a b ! k = a + int k"
  by (simp add: py_range_def)

lemma py_range_set: "set (py_range a b) = {a..<b}"
  by (auto simp: py_range_def)

lemma py_range_nat: "py_range 0 (int n) = map int [0..<n]"
  by (rule nth_equalityI) (simp_all add: py_range_length py_range_nth)

lemma lag_columns_length: "length (lag_columns lags) = nat lags"
  by (simp add: lag_columns_def py_range_length)

lemma index_slice_from_len:
  "0 \<le> i \<Longrightarrow> index_len (index_slice_from idx i) = index_len idx - nat i"
  by (cases idx) (simp_all add: py_slice_from_def slice_bound_def min_def)

lemma supervised_rows_range:
  assumes "0 \<le> lags" and "lags \<le> int (length vals)"
  shows "supervised_rows vals lags (py_range lags (int (length vals))) [] [] =
         Inr (map (\<lambda>j. rev (take (nat lags) (drop j vals))) [0..<length vals - nat lags],
              map (\<lambda>j. vals ! (nat lags + j)) [0..<length vals - nat lags])"
proof -
  let ?ts = "py_range lags (int (length vals))"
  have bounds: "\<forall>t \<in> set ?ts. lags \<le> t \<and> t < int (length vals)"
    by (simp add: py_range_set)
  have len: "length ?ts = length vals - nat lags"
    using assms by (simp add: py_range_length nat_diff_distrib)
  have nth: "?ts ! j = lags + int j" if "j < length vals - nat lags" for j
    using that assms by (intro py_range_nth) linarith
  have rows: "map (\<lambda>t. rev (take (nat lags) (drop (nat (t - lags)) vals))) ?ts =
              map (\<lambda>j. rev (take (nat lags) (drop j vals))) [0..<length vals - nat lags]"
    by (rule nth_equalityI) (simp_all add: len nth)
  have tgts: "map (\<lambda>t. vals ! nat t) ?ts =
              map (\<lambda>j. vals ! (nat lags + j)) [0..<length vals - nat lags]"
    using assms(1) by (intro nth_equalityI) (simp_all add: len nth nat_add_distrib)
  show ?thesis
    using supervised_rows_map [OF assms(1) bounds, of "[]" "[]"] by (simp add: rows tgts)
qed

lemma lag_columns_nth:
  assumes "1 \<le> k" and "k \<le> nat lags"
  shows "lag_columns lags ! (k - 1) = ''lag'' @ string_of_nat k"
proof -
  from assms have "k - 1 < nat (lags + 1 - 1)" by linarith
  then have "py_range 1 (lags + 1) ! (k - 1) = 1 + int (k - 1)"
    by (rule py_range_nth)
  moreover from assms have "1 + int (k - 1) = int k" by linarith
  moreover from assms have "k - 1 < length (py_range 1 (lags + 1))"
    by (simp add: py_range_length)
  ultimately show ?thesis
    by (simp add: lag_columns_def string_of_int_def)
qed

section \<open>The supervised training set\<close>

text \<open>
  Claim C3.  For a series of length \<open>n\<close> and a lag count \<open>L\<close> with \<open>n > L \<ge> 1\<close>, the
  construction of the supervised training set succeeds and gives \<open>n - L\<close> rows under
  the columns \<open>lag1 .. lagL\<close>; the row for \<open>t\<close> (from \<open>L\<close> to \<open>n - 1\<close>) is row \<open>t - L\<close>,
  its feature \<open>lag k\<close> is the value of the series at \<open>t - k\<close> and its target is the value
  at \<open>t\<close>.  For the series \<open>[1, 2, 3, 4, 5]\<close> with two lags the rows are \<open>(2, 1)\<close>,
  \<open>(3, 2)\<close>, \<open>(4, 3)\<close> and the targets \<open>3\<close>, \<open>4\<close>, \<open>5\<close>.
\<close>

theorem supervised_dataset_rows:
  assumes "1 \<le> lags" and "lags < int (length (s_values s))" and "series_ok s"
  shows "(\<exists>X y. supervised_dataset s lags = Inr (X, y)
            \<and> columns X = lag_columns lags
            \<and> length (rows X) = length (s_values s) - nat lags
            \<and> length (s_values y) = length (s_values s) - nat lags
            \<and> (\<forall>t k. nat lags \<le> t \<and> t < length (s_values s) \<and> 1 \<le> k \<and> k \<le> nat lags \<longrightarrow>
                  length (rows X ! (t - nat lags)) = nat lags
                \<and> rows X ! (t - nat lags) ! (k - 1) = s_values s ! (t - k)
                \<and> columns X ! (k - 1) = ''lag'' @ string_of_nat k
                \<and> s_values y ! (t - nat lags) = s_values s ! t))
       \<and> supervised_rows [Num 1, Num 2, Num 3, Num 4, Num 5] 2 (py_range 2 5) [] [] =
           Inr ([[Num 2, Num 1], [Num 3, Num 2], [Num 4, Num 3]], [Num 3, Num 4, Num 5])"
proof
  let ?vals = "s_values s"
  let ?n = "length ?vals"
  let ?L = "nat lags"
  let ?X_rows = "map (\<lambda>j. rev (take ?L (drop j ?vals))) [0..<?n - ?L]"
  let ?y_rows = "map (\<lambda>j. ?vals ! (?L + j)) [0..<?n - ?L]"
  let ?X = "\<lparr>columns = lag_columns lags, index = PlainIndex (py_range 0 (int (length ?X_rows))),
             rows = ?X_rows\<rparr>"
  let ?y = "\<lparr>s_index = index_slice_from (s_index s) lags, s_values = ?y_rows,
             s_name = Some (name_or (s_name s) ''y'')\<rparr>"
  from assms have L: "0 \<le> lags" "lags \<le> int ?n" "?L < ?n" "1 \<le> ?L" by linarith+
  have loop: "supervised_rows ?vals lags (py_range lags (int ?n)) [] [] = Inr (?X_rows, ?y_rows)"
    using L(1,2) by (rule supervised_rows_range)
  have row_len: "length (rev (take ?L (drop j ?vals))) = ?L" if "j < ?n - ?L" for j
    using that by simp
  have shape: "list_all (\<lambda>r. length r = length (lag_columns lags)) ?X_rows"
    by (simp add: list_all_iff lag_columns_length)
  have frame: "mk_frame ?X_rows (lag_columns lags) (PlainIndex (py_range 0 (int (length ?X_rows))))
                 = Some ?X"
    using shape by (simp add: mk_frame_def py_range_length)
  have ser: "mk_series ?y_rows (index_slice_from (s_index s) lags) (name_or (s_name s) ''y'') = Some ?y"
    using assms(3) L(1) by (simp add: mk_series_def index_slice_from_len series_ok_def)
  have ds: "supervised_dataset s lags = Inr (?X, ?y)"
    unfolding supervised_dataset_def Let_def loop using frame ser by simp
  have cells: "length (rows ?X ! (t - ?L)) = ?L
             \<and> rows ?X ! (t - ?L) ! (k - 1) = ?vals ! (t - k)
             \<and> columns ?X ! (k - 1) = ''lag'' @ string_of_nat k
             \<and> s_values ?y ! (t - ?L) = ?vals ! t"
    if "?L \<le> t" "t < ?n" "1 \<le> k" "k \<le> ?L" for t k
  proof -
    from that have j: "t - ?L < ?n - ?L" by linarith
    have tl: "length (take ?L (drop (t - ?L) ?vals)) = ?L"
      using that by simp
    from that have k1: "k - 1 < ?L" "?L - Suc (k - 1) = ?L - k" by linarith+
    have "rev (take ?L (drop (t - ?L) ?vals)) ! (k - 1) = take ?L (drop (t - ?L) ?vals) ! (?L - k)"
      using k1 by (simp add: rev_nth tl del: length_take)
    also have "\<dots> = ?vals ! (t - ?L + (?L - k))"
      using that by simp
    also from that have "t - ?L + (?L - k) = t - k" by linarith
    finally have cell: "rev (take ?L (drop (t - ?L) ?vals)) ! (k - 1) = ?vals ! (t - k)" .
    from that have tgt: "?L + (t - ?L) = t" by linarith
    have col: "lag_columns lags ! (k - 1) = ''lag'' @ string_of_nat k"
      using that(3,4) by (rule lag_columns_nth)
    show ?thesis
      using j cell tgt col that by simp
  qed
  show "\<exists>X y. supervised_dataset s lags = Inr (X, y)
            \<and> columns X = lag_columns lags
            \<and> length (rows X) = length (s_values s) - nat lags
            \<and> length (s_values y) = length (s_values s) - nat lags
            \<and> (\<forall>t k. nat lags \<le> t \<and> t < length (s_values s) \<and> 1 \<le> k \<and> k \<le> nat lags \<longrightarrow>
                  length (rows X ! (t - nat lags)) = nat lags
                \<and> rows X ! (t - nat lags) ! (k - 1) = s_values s ! (t - k)
                \<and> columns X ! (k - 1) = ''lag'' @ string_of_nat k
                \<and> s_values y ! (t - nat lags) = s_values s ! t)"
  proof (intro exI conjI)
    show "supervised_dataset s lags = Inr (?X, ?y)" by (rule ds)
    show "columns ?X = lag_columns lags" by simp
    show "length (rows ?X) = ?n - ?L" by simp
    show "length (s_values ?y) = ?n - ?L" by simp
    show "\<forall>t k. ?L \<le> t \<and> t < ?n \<and> 1 \<le> k \<and> k \<le> ?L \<longrightarrow>
                  length (rows ?X ! (t - ?L)) = ?L
                \<and> rows ?X ! (t - ?L) ! (k - 1) = ?vals ! (t - k)
                \<and> columns ?X ! (k - 1) = ''lag'' @ string_of_nat k
                \<and> s_values ?y ! (t - ?L) = ?vals ! t"
      using cells by blast
  qed
next
  show "supervised_rows [Num 1, Num 2, Num 3, Num 4, Num 5] 2 (py_range 2 5) [] [] =
           Inr ([[Num 2, Num 1], [Num 3, Num 2], [Num 4, Num 3]], [Num 3, Num 4, Num 5])"
    by code_simp
qed

theorem supervised_dataset_rows_witness:
  "(1::int) \<le> 2 \<and> 2 < int (length (s_values demo_series)) \<and> series_ok demo_series
   \<and> (\<exists>X y. supervised_dataset demo_series 2 = Inr (X, y)
          \<and> length (rows X) = 3
          \<and> rows X ! 2 = [Num 4, Num 3]
          \<and> s_values y ! 2 = Num 5)"
proof -
  have h1: "(1::int) \<le> 2" by simp
  have h2: "2 < int (length (s_values demo_series))" by (simp add: demo_series_def)
  have h3: "series_ok demo_series" by (simp add: demo_series_def series_ok_def)
  from supervised_dataset_rows [OF h1 h2 h3]
  obtain X y where ds: "supervised_dataset demo_series 2 = Inr (X, y)"
    and len: "length (rows X) = length (s_values demo_series) - nat 2"
    by blast
  have "supervised_dataset demo_series 2 =
          Inr (\<lparr>columns = [''lag1'', ''lag2''], index = PlainIndex [0, 1, 2],
                 rows = [[Num 2, Num 1], [Num 3, Num 2], [Num 4, Num 3]]\<rparr>,
               \<lparr>s_index = PlainIndex [2, 3, 4], s_values = [Num 3, Num 4, Num 5],
                 s_name = Some ''y''\<rparr>)"
    by code_simp
  with ds have "rows X = [[Num 2, Num 1], [Num 3, Num 2], [Num 4, Num 3]]"
    and "s_values y = [Num 3, Num 4, Num 5]" by auto
  then have "rows X ! 2 = [Num 4, Num 3]" "s_values y ! 2 = Num 5" by simp_all
  moreover from len have "length (rows X) = 3" by (simp add: demo_series_def)
  ultimately show ?thesis using h1 h2 h3 ds by blast
qed

section \<open>fit and predict\<close>

lemma predict_state: "snd (predict lib m X rs) = m"
  by (simp add: predict_def split: pyobj.split sum.split)

lemma fit_is_fitted:
  "is_fitted (snd (fit lib m X y)) = (is_fitted m \<or> fst (fit lib m X y) = None)"
  by (simp add: fit_def Let_def split: pyobj.split option.split sum.split prod.split)

lemma after_calls_is_fitted:
  "is_fitted (after_calls lib m cs) = (is_fitted m \<or> fit_succeeded lib m cs)"
proof (induction cs arbitrary: m)
  case Nil
  show ?case by simp
next
  case (Cons c cs)
  show ?case
  proof (cases c)
    case (FitCall X y)
    then show ?thesis by (simp add: Cons.IH fit_is_fitted)
  next
    case (PredictCall X rs)
    then show ?thesis by (simp add: Cons.IH predict_state)
  qed
qed

lemma gp_init_not_fitted: "\<not> is_fitted (gp_init lib k ny nr al)"
  by (simp add: gp_init_def)

lemma demo_fit:
  "fit demo_library (gp_init_kwargs demo_library demo_kwargs)
     (DataFrameObj demo_train_X) (SeriesObj demo_train_y) = (None, demo_model)"
  by code_simp

lemma align_schema_mismatch_iff:
  "(align_columns m Xf = Inl SchemaMismatch) =
   (\<exists>cols. feature_columns m = Some cols \<and> columns Xf \<noteq> cols \<and> \<not> distinct (columns Xf))"
  by (cases "feature_columns m") (auto simp: align_columns_def reindex_columns_def)

lemma predict_aligned_errors:
  "predict_aligned lib m Xf rs = Inl e \<Longrightarrow> e = LibraryError"
  by (auto simp: predict_aligned_def split: option.splits prod.splits if_splits)

lemma reindex_cell:
  assumes "distinct cs" and "length r = length cs" and "j' < length cs"
  shows "(case map_of (zip cs r) (cs ! j') of None \<Rightarrow> NaN | Some v \<Rightarrow> v) = r ! j'"
  using assms by (simp add: map_of_zip_nth)

text \<open>
  Claim C5.  On a model whose \<open>_is_fitted\<close> flag is not set, \<open>predict\<close> raises
  \<open>NotFitted\<close> for every argument and leaves the model as it is.  The flag is not set
  on a new model and stays unset through every history of calls in which no \<open>fit\<close>
  has returned, so after such a history \<open>predict\<close> raises \<open>NotFitted\<close>.
\<close>

theorem predict_before_fit:
  "(\<not> is_fitted m \<longrightarrow> predict lib m X rs = (Inl NotFitted, m))
   \<and> (\<not> fit_succeeded lib (gp_init lib k ny nr al) cs \<longrightarrow>
        fst (predict lib (after_calls lib (gp_init lib k ny nr al) cs) X rs) = Inl NotFitted)"
proof (intro conjI impI)
  assume "\<not> is_fitted m"
  then show "predict lib m X rs = (Inl NotFitted, m)" by (simp add: predict_def)
next
  assume "\<not> fit_succeeded lib (gp_init lib k ny nr al) cs"
  then have "\<not> is_fitted (after_calls lib (gp_init lib k ny nr al) cs)"
    by (simp add: after_calls_is_fitted gp_init_not_fitted)
  then show "fst (predict lib (after_calls lib (gp_init lib k ny nr al) cs) X rs) = Inl NotFitted"
    by (simp add: predict_def)
qed

theorem predict_before_fit_witness:
  "\<not> is_fitted (gp_init demo_library None True 5 (Num 0))
   \<and> predict demo_library (gp_init demo_library None True 5 (Num 0)) (DataFrameObj demo_train_X) False
       = (Inl NotFitted, gp_init demo_library None True 5 (Num 0))
   \<and> \<not> fit_succeeded demo_library (gp_init demo_library None True 5 (Num 0))
          [FitCall (DataFrameObj demo_train_X) OtherObj, PredictCall (DataFrameObj demo_train_X) False]
   \<and> fst (predict demo_library
            (after_calls demo_library (gp_init demo_library None True 5 (Num 0))
               [FitCall (DataFrameObj demo_train_X) OtherObj, PredictCall (DataFrameObj demo_train_X) False])
            (DataFrameObj demo_train_X) False) = Inl NotFitted"
proof -
  let ?m0 = "gp_init demo_library None True 5 (Num 0)"
  let ?cs = "[FitCall (DataFrameObj demo_train_X) OtherObj, PredictCall (DataFrameObj demo_train_X) False]"
  have h1: "\<not> is_fitted ?m0" by (simp add: gp_init_def)
  have h2: "\<not> fit_succeeded demo_library ?m0 ?cs"
    by (simp add: fit_def predict_state)
  from predict_before_fit [of ?m0 demo_library "DataFrameObj demo_train_X" False None True 5 "Num 0" ?cs]
    h1 h2 show ?thesis by blast
qed

text \<open>
  Claim C9.  \<open>fit\<close> raises \<open>TypeMismatch\<close> when \<open>X\<close> is not a \<open>DataFrame\<close> or \<open>y\<close> is
  not a \<open>Series\<close>, and \<open>LengthMismatch\<close> when the frame and the series differ in
  length.  In both cases the model is left exactly as it was, so the call does not mark
  it fitted.
\<close>

theorem fit_rejects:
  "(\<not> is_frame X \<or> \<not> is_series y \<longrightarrow> fit lib m X y = (Some TypeMismatch, m))
   \<and> (length (rows Xf) \<noteq> length (s_values ys) \<longrightarrow>
        fit lib m (DataFrameObj Xf) (SeriesObj ys) = (Some LengthMismatch, m))
   \<and> (fst (fit lib m X y) \<in> {Some TypeMismatch, Some LengthMismatch} \<longrightarrow>
        snd (fit lib m X y) = m \<and> is_fitted (snd (fit lib m X y)) = is_fitted m)"
proof (intro conjI impI)
  assume "\<not> is_frame X \<or> \<not> is_series y"
  then show "fit lib m X y = (Some TypeMismatch, m)"
    by (cases X; cases y) (simp_all add: fit_def)
next
  assume "length (rows Xf) \<noteq> length (s_values ys)"
  then show "fit lib m (DataFrameObj Xf) (SeriesObj ys) = (Some LengthMismatch, m)"
    by (simp add: fit_def)
next
  assume "fst (fit lib m X y) \<in> {Some TypeMismatch, Some LengthMismatch}"
  then show "snd (fit lib m X y) = m"
    by (auto simp: fit_def Let_def split: pyobj.splits option.splits sum.splits prod.splits if_splits)
  then show "is_fitted (snd (fit lib m X y)) = is_fitted m" by simp
qed

theorem fit_rejects_witness:
  "\<not> is_frame OtherObj
   \<and> fit demo_library demo_model OtherObj (SeriesObj demo_train_y) = (Some TypeMismatch, demo_model)
   \<and> length (rows demo_train_X) \<noteq> length (s_values demo_series)
   \<and> fit demo_library (gp_init_kwargs demo_library demo_kwargs)
        (DataFrameObj demo_train_X) (SeriesObj demo_series)
       = (Some LengthMismatch, gp_init_kwargs demo_library demo_kwargs)
   \<and> \<not> is_fitted (snd (fit demo_library (gp_init_kwargs demo_library demo_kwargs)
        (DataFrameObj demo_train_X) (SeriesObj demo_series)))"
proof -
  let ?m0 = "gp_init_kwargs demo_library demo_kwargs"
  have h1: "\<not> is_frame OtherObj \<or> \<not> is_series (SeriesObj demo_train_y)" by simp
  have h2: "length (rows demo_train_X) \<noteq> length (s_values demo_series)"
    by (simp add: demo_train_X_def demo_series_def)
  have nf: "\<not> is_fitted ?m0" by (simp add: gp_init_kwargs_def gp_init_def)
  from fit_rejects [of OtherObj "SeriesObj demo_train_y" demo_library demo_model demo_train_X demo_series]
    h1 h2
  have a: "fit demo_library demo_model OtherObj (SeriesObj demo_train_y) = (Some TypeMismatch, demo_model)"
    by blast
  from fit_rejects [of "DataFrameObj demo_train_X" "SeriesObj demo_series" demo_library ?m0
      demo_train_X demo_series] h2
  have b: "fit demo_library ?m0 (DataFrameObj demo_train_X) (SeriesObj demo_series)
             = (Some LengthMismatch, ?m0)"
    by blast
  from b nf have c: "\<not> is_fitted (snd (fit demo_library ?m0 (DataFrameObj demo_train_X)
      (SeriesObj demo_series)))" by simp
  have h0: "\<not> is_frame OtherObj" by simp
  from h0 h2 a b c show ?thesis by blast
qed

text \<open>
  Claim C7.  \<open>predict\<close> leaves the whole state of the model as it was (the feature
  scaler, the target scaler, the regressor, the recorded feature columns and the fitted
  flag), and a second call on the same argument returns what the first call returned.
\<close>

theorem predict_leaves_state:
  "snd (predict lib m X rs) = m
   \<and> scaler_X (snd (predict lib m X rs)) = scaler_X m
   \<and> scaler_y (snd (predict lib m X rs)) = scaler_y m
   \<and> gpr (snd (predict lib m X rs)) = gpr m
   \<and> feature_columns (snd (predict lib m X rs)) = feature_columns m
   \<and> is_fitted (snd (predict lib m X rs)) = is_fitted m
   \<and> fst (predict lib (snd (predict lib m X rs)) X rs) = fst (predict lib m X rs)"
  by (simp add: predict_state)

theorem predict_leaves_state_witness:
  "snd (predict demo_library demo_model (DataFrameObj demo_swapped) True) = demo_model
   \<and> fst (predict demo_library
            (snd (predict demo_library demo_model (DataFrameObj demo_swapped) True))
            (DataFrameObj demo_swapped) True)
       = fst (predict demo_library demo_model (DataFrameObj demo_swapped) True)
   \<and> is_fitted demo_model"
  using predict_leaves_state [of demo_library demo_model "DataFrameObj demo_swapped" True]
  by (simp add: demo_model_def)

text \<open>
  Claim C6, as amended.  Let the model be fitted and let the frame have unique column
  labels that include every feature column recorded by \<open>fit\<close> (a permutation of them,
  or more).  Then the reindexing succeeds, every cell of the reindexed frame is the cell
  of the column of that name in the given frame, and \<open>predict\<close> on the given frame is
  \<open>predict\<close> on the reindexed frame, never \<open>NotFitted\<close>, \<open>TypeMismatch\<close> or
  \<open>SchemaMismatch\<close>.  It returns the series of the predictions (and of the standard
  deviations, when asked for) under the index of the given frame whenever the scaler and
  the regressor return for the reindexed frame, with one value for each row: without
  target normalisation the values of the regressor, with it their inverse transform and
  the deviations times the target scale.
\<close>

theorem predict_realigned:
  assumes fitted: "is_fitted m"
    and cols: "feature_columns m = Some cols"
    and uniq: "distinct (columns Xf)"
    and sup: "set cols \<subseteq> set (columns Xf)"
    and ok: "frame_ok Xf"
  shows "\<exists>X'. reindex_columns Xf (Some cols) = Some X'
            \<and> columns X' = cols \<and> index X' = index Xf \<and> length (rows X') = length (rows Xf)
            \<and> (\<forall>i j. i < length (rows Xf) \<and> j < length cols \<longrightarrow>
                   (\<exists>j'. j' < length (columns Xf) \<and> columns Xf ! j' = cols ! j
                       \<and> rows X' ! i ! j = rows Xf ! i ! j'))
            \<and> predict lib m (DataFrameObj Xf) rs = predict lib m (DataFrameObj X') rs
            \<and> fst (predict lib m (DataFrameObj Xf) rs) = predict_aligned lib m X' rs
            \<and> fst (predict lib m (DataFrameObj Xf) rs)
                 \<notin> {Inl NotFitted, Inl TypeMismatch, Inl SchemaMismatch}
            \<and> (\<forall>Xs g yp ystd.
                               scaler_transform lib (scaler_X m) (rows X') = Some Xs
                             \<and> gpr m = Some g \<and> gpr_predict lib g Xs = Some (yp, ystd)
                             \<and> length yp = index_len (index Xf) \<and> length ystd = index_len (index Xf)
                             \<and> normalize_y m = False \<longrightarrow>
                               predict lib m (DataFrameObj Xf) rs =
                                 (Inr (if rs
                                       then WithStd
                                              \<lparr>s_index = index Xf, s_values = yp, s_name = Some ''gp_projection''\<rparr>
                                              \<lparr>s_index = index Xf, s_values = ystd, s_name = Some ''gp_std''\<rparr>
                                       else Point
                                              \<lparr>s_index = index Xf, s_values = yp, s_name = Some ''gp_projection''\<rparr>),
                                  m))
            \<and> (\<forall>Xs g yp ystd sy Y sc.
                               scaler_transform lib (scaler_X m) (rows X') = Some Xs
                             \<and> gpr m = Some g \<and> gpr_predict lib g Xs = Some (yp, ystd)
                             \<and> normalize_y m = True \<and> scaler_y m = Some sy
                             \<and> scaler_inverse_transform lib sy (as_column yp) = Some Y
                             \<and> scaler_scale lib sy = Some sc
                             \<and> length (ravel Y) = index_len (index Xf) \<and> length ystd = index_len (index Xf)
                             \<longrightarrow>
                               predict lib m (DataFrameObj Xf) rs =
                                 (Inr (if rs
                                       then WithStd
                                              \<lparr>s_index = index Xf, s_values = ravel Y,
                                               s_name = Some ''gp_projection''\<rparr>
                                              \<lparr>s_index = index Xf, s_values = map (\<lambda>s. float_mul lib s sc) ystd,
                                               s_name = Some ''gp_std''\<rparr>
                                       else Point
                                              \<lparr>s_index = index Xf, s_values = ravel Y,
                                               s_name = Some ''gp_projection''\<rparr>),
                                  m))"
proof -
  let ?pick = "\<lambda>r c. case map_of (zip (columns Xf) r) c of None \<Rightarrow> NaN | Some v \<Rightarrow> v"
  let ?X' = "if columns Xf = cols then Xf
             else Xf\<lparr>columns := cols, rows := map (\<lambda>r. map (?pick r) cols) (rows Xf)\<rparr>"
  have re: "reindex_columns Xf (Some cols) = Some ?X'"
    using uniq by (simp add: reindex_columns_def)
  have c': "columns ?X' = cols" by simp
  have i': "index ?X' = index Xf" by simp
  have l': "length (rows ?X') = length (rows Xf)" by simp
  have al: "align_columns m Xf = Inr ?X'"
    using cols uniq by (simp add: align_columns_def reindex_columns_def)
  have al': "align_columns m ?X' = Inr ?X'"
    using cols by (simp add: align_columns_def)
  have p: "predict lib m (DataFrameObj Xf) rs = (predict_aligned lib m ?X' rs, m)"
    using fitted al by (simp add: predict_def)
  have p': "predict lib m (DataFrameObj ?X') rs = (predict_aligned lib m ?X' rs, m)"
    using fitted al' by (simp add: predict_def del: if_split cong: if_cong)
  have noerr: "predict_aligned lib m ?X' rs \<notin> {Inl NotFitted, Inl TypeMismatch, Inl SchemaMismatch}"
    using predict_aligned_errors [of lib m ?X' rs] by auto
  have cell: "rows ?X' ! i ! j = rows Xf ! i ! j'"
    if "i < length (rows Xf)" "j < length cols" "j' < length (columns Xf)"
       "columns Xf ! j' = cols ! j" for i j j'
  proof (cases "columns Xf = cols")
    case True
    with that uniq have "j' = j" by (simp add: nth_eq_iff_index_eq)
    with True show ?thesis by simp
  next
    case False
    from ok that(1) have len: "length (rows Xf ! i) = length (columns Xf)"
      by (simp add: frame_ok_def list_all_length)
    have "?pick (rows Xf ! i) (columns Xf ! j') = rows Xf ! i ! j'"
      using uniq len that(3) by (rule reindex_cell)
    with False that show ?thesis by simp
  qed
  show ?thesis
  proof (intro exI conjI)
    show "reindex_columns Xf (Some cols) = Some ?X'" by (rule re)
    show "columns ?X' = cols" by (rule c')
    show "index ?X' = index Xf" by (rule i')
    show "length (rows ?X') = length (rows Xf)" by (rule l')
    show "\<forall>i j. i < length (rows Xf) \<and> j < length cols \<longrightarrow>
                   (\<exists>j'. j' < length (columns Xf) \<and> columns Xf ! j' = cols ! j
                       \<and> rows ?X' ! i ! j = rows Xf ! i ! j')"
    proof (intro allI impI)
      fix i j
      assume ij: "i < length (rows Xf) \<and> j < length cols"
      with sup have "cols ! j \<in> set (columns Xf)" by auto
      then obtain j' where j': "j' < length (columns Xf)" "columns Xf ! j' = cols ! j"
        by (auto simp: in_set_conv_nth)
      with ij cell [of i j j'] show "\<exists>j'. j' < length (columns Xf) \<and> columns Xf ! j' = cols ! j
                       \<and> rows ?X' ! i ! j = rows Xf ! i ! j'"
        by blast
    qed
    show "predict lib m (DataFrameObj Xf) rs = predict lib m (DataFrameObj ?X') rs"
      using p p' by simp
    show "fst (predict lib m (DataFrameObj Xf) rs) = predict_aligned lib m ?X' rs"
      using p by simp
    show "fst (predict lib m (DataFrameObj Xf) rs)
                 \<notin> {Inl NotFitted, Inl TypeMismatch, Inl SchemaMismatch}"
      using p noerr by simp
    show "(\<forall>Xs g yp ystd.
                   scaler_transform lib (scaler_X m) (rows ?X') = Some Xs
                 \<and> gpr m = Some g \<and> gpr_predict lib g Xs = Some (yp, ystd)
                 \<and> length yp = index_len (index Xf) \<and> length ystd = index_len (index Xf)
                 \<and> normalize_y m = False \<longrightarrow>
                   predict lib m (DataFrameObj Xf) rs =
                     (Inr (if rs
                           then WithStd
                                  \<lparr>s_index = index Xf, s_values = yp, s_name = Some ''gp_projection''\<rparr>
                                  \<lparr>s_index = index Xf, s_values = ystd, s_name = Some ''gp_std''\<rparr>
                           else Point
                                  \<lparr>s_index = index Xf, s_values = yp, s_name = Some ''gp_projection''\<rparr>),
                      m))"
      using p by (auto simp: predict_aligned_def mk_series_def)
    show "(\<forall>Xs g yp ystd sy Y sc.
                   scaler_transform lib (scaler_X m) (rows ?X') = Some Xs
                 \<and> gpr m = Some g \<and> gpr_predict lib g Xs = Some (yp, ystd)
                 \<and> normalize_y m = True \<and> scaler_y m = Some sy
                 \<and> scaler_inverse_transform lib sy (as_column yp) = Some Y
                 \<and> scaler_scale lib sy = Some sc
                 \<and> length (ravel Y) = index_len (index Xf) \<and> length ystd = index_len (index Xf)
                 \<longrightarrow>
                   predict lib m (DataFrameObj Xf) rs =
                     (Inr (if rs
                           then WithStd
                                  \<lparr>s_index = index Xf, s_values = ravel Y,
                                   s_name = Some ''gp_projection''\<rparr>
                                  \<lparr>s_index = index Xf, s_values = map (\<lambda>s. float_mul lib s sc) ystd,
                                   s_name = Some ''gp_std''\<rparr>
                           else Point
                                  \<lparr>s_index = index Xf, s_values = ravel Y,
                                   s_name = Some ''gp_projection''\<rparr>),
                      m))"
      using p by (auto simp: predict_aligned_def mk_series_def)
  qed
qed

theorem predict_realigned_witness:
  "is_fitted demo_model \<and> feature_columns demo_model = Some [''lag1'', ''lag2'']
   \<and> distinct (columns demo_swapped) \<and> set [''lag1'', ''lag2''] \<subseteq> set (columns demo_swapped)
   \<and> frame_ok demo_swapped
   \<and> (\<exists>X'. reindex_columns demo_swapped (Some [''lag1'', ''lag2'']) = Some X'
          \<and> rows X' = [[Num 5, Num 4]]
          \<and> predict demo_library demo_model (DataFrameObj demo_swapped) False
              = predict demo_library demo_model (DataFrameObj X') False)
   \<and> predict demo_library demo_model (DataFrameObj demo_swapped) False =
        (Inr (Point \<lparr>s_index = PlainIndex [7], s_values = [Num 4],
                     s_name = Some ''gp_projection''\<rparr>), demo_model)"
proof -
  let ?X = "\<lparr>columns = [''lag1'', ''lag2''], index = PlainIndex [7], rows = [[Num 5, Num 4]]\<rparr>"
  have h1: "is_fitted demo_model" by (simp add: demo_model_def)
  have h2: "feature_columns demo_model = Some [''lag1'', ''lag2'']" by (simp add: demo_model_def)
  have h3: "distinct (columns demo_swapped)" by (simp add: demo_swapped_def)
  have h4: "set [''lag1'', ''lag2''] \<subseteq> set (columns demo_swapped)" by (simp add: demo_swapped_def)
  have h5: "frame_ok demo_swapped" by (simp add: demo_swapped_def frame_ok_def)
  have rx: "reindex_columns demo_swapped (Some [''lag1'', ''lag2'']) = Some ?X"
    by code_simp
  from predict_realigned [OF h1 h2 h3 h4 h5, of demo_library False] rx
  have eq: "predict demo_library demo_model (DataFrameObj demo_swapped) False
              = predict demo_library demo_model (DataFrameObj ?X) False"
    and succ: "\<forall>Xs g yp ystd sy Y sc.
                   scaler_transform demo_library (scaler_X demo_model) (rows ?X) = Some Xs
                 \<and> gpr demo_model = Some g \<and> gpr_predict demo_library g Xs = Some (yp, ystd)
                 \<and> normalize_y demo_model = True \<and> scaler_y demo_model = Some sy
                 \<and> scaler_inverse_transform demo_library sy (as_column yp) = Some Y
                 \<and> scaler_scale demo_library sy = Some sc
                 \<and> length (ravel Y) = index_len (index demo_swapped)
                 \<and> length ystd = index_len (index demo_swapped)
                 \<longrightarrow>
                   predict demo_library demo_model (DataFrameObj demo_swapped) False =
                     (Inr (if False
                           then WithStd
                                  \<lparr>s_index = index demo_swapped, s_values = ravel Y,
                                   s_name = Some ''gp_projection''\<rparr>
                                  \<lparr>s_index = index demo_swapped,
                                   s_values = map (\<lambda>s. float_mul demo_library s sc) ystd,
                                   s_name = Some ''gp_std''\<rparr>
                           else Point
                                  \<lparr>s_index = index demo_swapped, s_values = ravel Y,
                                   s_name = Some ''gp_projection''\<rparr>),
                      demo_model)"
    by auto
  have lib: "scaler_transform demo_library (scaler_X demo_model) (rows ?X) = Some [[Num 5, Num 4]]
           \<and> gpr demo_model = Some (Fitted ())
           \<and> gpr_predict demo_library (Fitted ()) [[Num 5, Num 4]] = Some ([Num 4], [Num 0])
           \<and> normalize_y demo_model = True \<and> scaler_y demo_model = Some (Fitted ())
           \<and> scaler_inverse_transform demo_library (Fitted ()) (as_column [Num 4]) = Some [[Num 4]]
           \<and> scaler_scale demo_library (Fitted ()) = Some (Num 1)
           \<and> length (ravel [[Num 4]]) = index_len (index demo_swapped)
           \<and> length [Num 0] = index_len (index demo_swapped)"
    by (simp add: demo_library_def demo_model_def demo_swapped_def as_column_def ravel_def)
  from succ [rule_format, OF lib]
  have run: "predict demo_library demo_model (DataFrameObj demo_swapped) False =
        (Inr (Point \<lparr>s_index = PlainIndex [7], s_values = [Num 4],
                     s_name = Some ''gp_projection''\<rparr>), demo_model)"
    by (simp add: ravel_def demo_swapped_def)
  have "rows ?X = [[Num 5, Num 4]]" by simp
  with rx eq have ex: "\<exists>X'. reindex_columns demo_swapped (Some [''lag1'', ''lag2'']) = Some X'
          \<and> rows X' = [[Num 5, Num 4]]
          \<and> predict demo_library demo_model (DataFrameObj demo_swapped) False
              = predict demo_library demo_model (DataFrameObj X') False"
    by blast
  from h1 h2 h3 h4 h5 ex run show ?thesis by blast
qed

text \<open>
  Claim C6 as it was stated fails in two ways.  The labels \<open>lag2, lag1\<close> are a
  permutation of the feature columns, but the frame has a \<open>NaN\<close> cell and the regressor
  rejects it: \<open>predict\<close> raises.  The labels \<open>a, b, a\<close> are a permutation of the training
  columns \<open>a, a, b\<close>, but pandas does not reindex a frame whose labels repeat:
  \<open>predict\<close> raises \<open>SchemaMismatch\<close>.
\<close>

theorem predict_realigned_counterexample:
  "fit demo_library (gp_init_kwargs demo_library demo_kwargs)
     (DataFrameObj demo_train_X) (SeriesObj demo_train_y) = (None, demo_model)
   \<and> feature_columns demo_model = Some [''lag1'', ''lag2'']
   \<and> columns demo_nan_swapped = [''lag2'', ''lag1'']
   \<and> fst (predict demo_library demo_model (DataFrameObj demo_nan_swapped) False) = Inl LibraryError
   \<and> fit demo_library (gp_init_kwargs demo_library demo_kwargs)
         (DataFrameObj dup_train_X) (SeriesObj demo_train_y) = (None, dup_model)
   \<and> feature_columns dup_model = Some [''a'', ''a'', ''b'']
   \<and> columns dup_query = [''a'', ''b'', ''a'']
   \<and> fst (predict demo_library dup_model (DataFrameObj dup_query) False) = Inl SchemaMismatch"
proof (intro conjI)
  show "fit demo_library (gp_init_kwargs demo_library demo_kwargs)
     (DataFrameObj demo_train_X) (SeriesObj demo_train_y) = (None, demo_model)"
    by (rule demo_fit)
  show "feature_columns demo_model = Some [''lag1'', ''lag2'']" by (simp add: demo_model_def)
  show "columns demo_nan_swapped = [''lag2'', ''lag1'']" by (simp add: demo_nan_swapped_def)
  show "fst (predict demo_library demo_model (DataFrameObj demo_nan_swapped) False) = Inl LibraryError"
    by code_simp
  show "fit demo_library (gp_init_kwargs demo_library demo_kwargs)
         (DataFrameObj dup_train_X) (SeriesObj demo_train_y) = (None, dup_model)"
    by code_simp
  show "feature_columns dup_model = Some [''a'', ''a'', ''b'']" by (simp add: dup_model_def)
  show "columns dup_query = [''a'', ''b'', ''a'']" by (simp add: dup_query_def)
  show "fst (predict demo_library dup_model (DataFrameObj dup_query) False) = Inl SchemaMismatch"
    by code_simp
qed

text \<open>
  Claim C1, at a frame that lacks a feature column.  The model is the one fitted on the
  columns \<open>lag1\<close> and \<open>lag2\<close>; the frame has the column \<open>lag1\<close> only.  The
  reindexing does not raise: it fills the column \<open>lag2\<close> with \<open>NaN\<close>, and the frame goes
  on to the scaler and the regressor.  \<open>predict\<close> does not raise \<open>SchemaMismatch\<close>; what
  it raises here comes from the regressor, which rejects \<open>NaN\<close>.
\<close>

theorem predict_missing_column:
  "fit demo_library (gp_init_kwargs demo_library demo_kwargs)
     (DataFrameObj demo_train_X) (SeriesObj demo_train_y) = (None, demo_model)
   \<and> feature_columns demo_model = Some [''lag1'', ''lag2'']
   \<and> columns demo_missing = [''lag1'']
   \<and> align_columns demo_model demo_missing =
        Inr \<lparr>columns = [''lag1'', ''lag2''], index = PlainIndex [0], rows = [[Num 5, NaN]]\<rparr>
   \<and> fst (predict demo_library demo_model (DataFrameObj demo_missing) False) = Inl LibraryError
   \<and> fst (predict demo_library demo_model (DataFrameObj demo_missing) False) \<noteq> Inl SchemaMismatch"
  by code_simp

section \<open>The future rows and the length checks\<close>

lemma slide_drop:
  assumes "w \<noteq> []"
  shows "drop i (tl w @ [v] @ vs) = drop (Suc i) (w @ v # vs)"
  using assms by (cases w) simp_all

lemma lag_rows_closed:
  "w \<noteq> [] \<Longrightarrow>
   lag_rows n w acc = acc @ map (\<lambda>i. rev (drop i (w @ replicate i NaN))) [0..<n]"
proof (induction n arbitrary: w acc)
  case 0
  show ?case by simp
next
  case (Suc n)
  have ne: "tl w @ [NaN] \<noteq> []" by simp
  have "drop i ((tl w @ [NaN]) @ replicate i NaN) = drop (Suc i) (w @ replicate (Suc i) NaN)" for i
    using slide_drop [OF Suc.prems, of i NaN "replicate i NaN"]
    by (simp only: append_assoc replicate_Suc)
  then have step: "map (\<lambda>i. rev (drop i ((tl w @ [NaN]) @ replicate i NaN))) [0..<n]
            = map (\<lambda>i. rev (drop (Suc i) (w @ replicate (Suc i) NaN))) [0..<n]"
    by (simp only:)
  have "lag_rows (Suc n) w acc = lag_rows n (tl w @ [NaN]) (acc @ [rev w])"
    by (simp add: py_slice_from_one)
  also have "\<dots> = (acc @ [rev w]) @ map (\<lambda>i. rev (drop i ((tl w @ [NaN]) @ replicate i NaN))) [0..<n]"
    by (rule Suc.IH [OF ne])
  also have "\<dots> = (acc @ [rev w]) @ map (\<lambda>i. rev (drop (Suc i) (w @ replicate (Suc i) NaN))) [0..<n]"
    by (simp only: step)
  also have "\<dots> = acc @ map (\<lambda>i. rev (drop i (w @ replicate i NaN))) (0 # map Suc [0..<n])"
    by (simp only: list.map map_map comp_def append_assoc append_Cons append_Nil
          drop_0 replicate_0 append_Nil2)
  also have "0 # map Suc [0..<n] = [0..<Suc n]"
    by (simp add: map_Suc_upt upt_conv_Cons del: upt_Suc)
  finally show ?case .
qed

lemma lag_row_cell:
  assumes "length w = L" and "k < L"
  shows "rev (drop i (w @ replicate i NaN)) ! k =
         (if k < i then NaN else w ! (L - 1 - (k - i)))"
proof -
  define xs where "xs = drop i (w @ replicate i NaN)"
  have len: "length xs = L" using assms by (simp add: xs_def)
  with assms have "rev xs ! k = xs ! (L - Suc k)"
    by (simp add: rev_nth)
  then have "rev (drop i (w @ replicate i NaN)) ! k = drop i (w @ replicate i NaN) ! (L - Suc k)"
    by (simp only: xs_def)
  also have "\<dots> = (w @ replicate i NaN) ! (i + (L - Suc k))"
    using assms by (intro nth_drop) simp
  also have "\<dots> = (if k < i then NaN else w ! (L - 1 - (k - i)))"
  proof (cases "k < i")
    case True
    with assms have "\<not> i + (L - Suc k) < length w" "i + (L - Suc k) - length w < i" by linarith+
    with True show ?thesis by (simp add: nth_append)
  next
    case False
    with assms have "i + (L - Suc k) < length w" "i + (L - Suc k) = L - 1 - (k - i)" by linarith+
    with False show ?thesis by (simp add: nth_append)
  qed
  finally show ?thesis .
qed

lemma lag_row_length: "length w = L \<Longrightarrow> length (rev (drop i (w @ replicate i NaN))) = L"
  by simp

lemma last_window_length:
  "1 \<le> lags \<Longrightarrow> lags \<le> int (length vals) \<Longrightarrow> length (py_slice_from vals (- lags)) = nat lags"
  by (simp add: py_slice_from_last)

lemma last_window_nth:
  assumes "1 \<le> lags" and "lags \<le> int (length vals)" and "j < nat lags"
  shows "py_slice_from vals (- lags) ! j = vals ! (length vals - nat lags + j)"
  using assms by (simp add: py_slice_from_last)

lemma future_rows:
  assumes "1 \<le> lags" and "lags \<le> int (length vals)"
  shows "length (lag_rows n (py_slice_from vals (- lags)) []) = n"
    and "i < n \<Longrightarrow> length (lag_rows n (py_slice_from vals (- lags)) [] ! i) = nat lags"
    and "i < n \<Longrightarrow> k < nat lags \<Longrightarrow>
         lag_rows n (py_slice_from vals (- lags)) [] ! i ! k =
           (if k < i then NaN else vals ! (length vals - 1 - (k - i)))"
    and "0 < n \<Longrightarrow> lag_rows n (py_slice_from vals (- lags)) [] ! 0 = rev (py_slice_from vals (- lags))"
proof -
  let ?w = "py_slice_from vals (- lags)"
  have wl: "length ?w = nat lags" using assms by (rule last_window_length)
  with assms have ne: "?w \<noteq> []" by auto
  have closed: "lag_rows n ?w [] = map (\<lambda>i. rev (drop i (?w @ replicate i NaN))) [0..<n]"
    using lag_rows_closed [OF ne, of n "[]"] by simp
  show "length (lag_rows n ?w []) = n" by (simp add: closed)
  show "length (lag_rows n ?w [] ! i) = nat lags" if "i < n"
    using that wl by (simp add: closed)
  show "lag_rows n ?w [] ! i ! k = (if k < i then NaN else vals ! (length vals - 1 - (k - i)))"
    if "i < n" "k < nat lags"
  proof -
    have "lag_rows n ?w [] ! i ! k = rev (drop i (?w @ replicate i NaN)) ! k"
      using that by (simp add: closed)
    also have "\<dots> = (if k < i then NaN else ?w ! (nat lags - 1 - (k - i)))"
      using wl that(2) by (rule lag_row_cell)
    also have "\<dots> = (if k < i then NaN else vals ! (length vals - 1 - (k - i)))"
    proof (cases "k < i")
      case True then show ?thesis by simp
    next
      case False
      from that(2) have j: "nat lags - 1 - (k - i) < nat lags" by linarith
      have "?w ! (nat lags - 1 - (k - i)) = vals ! (length vals - nat lags + (nat lags - 1 - (k - i)))"
        using assms j by (rule last_window_nth)
      moreover from assms that False
      have "length vals - nat lags + (nat lags - 1 - (k - i)) = length vals - 1 - (k - i)" by linarith
      ultimately show ?thesis using False by simp
    qed
    finally show ?thesis .
  qed
  show "lag_rows n ?w [] ! 0 = rev ?w" if "0 < n"
    using that by (simp add: closed upt_conv_Cons del: upt_Suc)
qed

lemma make_lag_features_eq:
  assumes "1 \<le> lags" and "lags \<le> int (length (s_values s))"
  shows "make_lag_features lib (SeriesObj s) lags n_steps freq =
         (case future_index_of lib (s_index s) n_steps freq of
            None \<Rightarrow> Inl LibraryError
          | Some idx \<Rightarrow>
              if index_len idx = nat n_steps then
                Inr \<lparr>columns = lag_columns lags, index = idx,
                     rows = lag_rows (nat n_steps) (py_slice_from (s_values s) (- lags)) []\<rparr>
              else Inl LibraryError)"
proof -
  let ?R = "lag_rows (nat n_steps) (py_slice_from (s_values s) (- lags)) []"
  have len: "length ?R = nat n_steps"
    using assms by (rule future_rows(1))
  have "list_all (\<lambda>r. length r = length (lag_columns lags)) ?R"
    unfolding list_all_length lag_columns_length len
    using future_rows(2) [OF assms] by blast
  then have "mk_frame ?R (lag_columns lags) idx =
        (if index_len idx = nat n_steps
         then Some \<lparr>columns = lag_columns lags, index = idx, rows = ?R\<rparr> else None)" for idx
    by (simp add: mk_frame_def len)
  then have fr: "(case mk_frame ?R (lag_columns lags) idx of None \<Rightarrow> Inl LibraryError | Some df \<Rightarrow> Inr df) =
        (if index_len idx = nat n_steps
         then Inr \<lparr>columns = lag_columns lags, index = idx, rows = ?R\<rparr> else Inl LibraryError)" for idx
    by simp
  from assms have g: "\<not> lags < 1" "\<not> int (length (s_values s)) < lags" by linarith+
  show ?thesis
    unfolding make_lag_features_def Let_def pyobj.case if_not_P [OF g(1)] if_not_P [OF g(2)] fr ..
qed

lemma future_index_plain:
  "future_index_of lib (PlainIndex ls) n_steps freq = Some (PlainIndex (py_range 0 n_steps))"
  by (simp add: future_index_of_def)

lemma future_index_no_freq:
  "(if freq = None then infer_freq lib ts else freq) = None \<Longrightarrow>
   future_index_of lib (DatetimeIndex ts) n_steps freq = Some (PlainIndex (py_range 0 n_steps))"
  by (simp add: future_index_of_def split: if_splits)

lemma py_index_last: "ts \<noteq> [] \<Longrightarrow> py_index ts (- 1) = Some (last ts)"
proof -
  assume ne: "ts \<noteq> []"
  then have "0 < length ts" by simp
  then have "nat (int (length ts) + - 1) = length ts - 1" by linarith
  with ne show ?thesis
    by (simp add: py_index_def Let_def last_conv_nth)
qed

lemma future_index_freq:
  "(if freq = None then infer_freq lib ts else freq) = Some fq \<Longrightarrow> ts \<noteq> [] \<Longrightarrow>
   future_index_of lib (DatetimeIndex ts) n_steps freq =
     (case date_range lib (last ts) (n_steps + 1) fq of
        None \<Rightarrow> None | Some ds \<Rightarrow> Some (DatetimeIndex (tl ds)))"
  by (simp add: future_index_of_def py_index_last py_slice_from_one split: if_splits option.split)

lemma py_range_0: "0 \<le> n \<Longrightarrow> py_range 0 n = map int [0..<nat n]"
  using py_range_nat [of "nat n"] by simp

lemma supervised_rows_errors:
  "supervised_rows vals lags ts X_rows y_rows = Inl e \<Longrightarrow> e = LibraryError"
  by (induction ts arbitrary: X_rows y_rows) (auto simp: Let_def split: option.splits)

lemma supervised_dataset_errors: "supervised_dataset s lags = Inl e \<Longrightarrow> e = LibraryError"
  by (auto simp: supervised_dataset_def Let_def split: sum.splits option.splits prod.splits
      dest: supervised_rows_errors)

lemma fit_errors:
  "fst (fit lib m X y) = Some e \<Longrightarrow> e = TypeMismatch \<or> e = LengthMismatch \<or> e = LibraryError"
  by (auto simp: fit_def Let_def split: pyobj.splits option.splits sum.splits prod.splits if_splits)

lemma align_columns_errors: "align_columns m Xf = Inl e \<Longrightarrow> e = SchemaMismatch"
  by (auto simp: align_columns_def split: if_splits option.splits)

lemma predict_errors:
  "fst (predict lib m X rs) = Inl e \<Longrightarrow>
   e = NotFitted \<or> e = TypeMismatch \<or> e = SchemaMismatch \<or> e = LibraryError"
  by (auto simp: predict_def split: if_splits pyobj.splits sum.splits
      dest: align_columns_errors predict_aligned_errors)

lemma predict_step_errors:
  "fst (predict_step lib m cols w) = Inl e \<Longrightarrow>
   e = NotFitted \<or> e = TypeMismatch \<or> e = SchemaMismatch \<or> e = LibraryError"
proof -
  assume a: "fst (predict_step lib m cols w) = Inl e"
  show ?thesis
  proof (cases "mk_frame [rev w] cols (PlainIndex (py_range 0 1))")
    case None
    with a show ?thesis by (simp add: predict_step_def)
  next
    case (Some f)
    obtain r m' where p: "predict lib m (DataFrameObj f) False = (r, m')" by (cases "predict lib m (DataFrameObj f) False")
    show ?thesis
    proof (cases r)
      case (Inl e')
      with a Some p have "e = e'" by (simp add: predict_step_def)
      moreover from p Inl have "fst (predict lib m (DataFrameObj f) False) = Inl e'" by simp
      ultimately show ?thesis using predict_errors by blast
    next
      case (Inr pr)
      with a Some p show ?thesis
        by (cases pr) (auto simp: predict_step_def split: option.splits)
    qed
  qed
qed

lemma rollout_errors:
  "rollout lib m cols n w preds = Inl e \<Longrightarrow>
   e = NotFitted \<or> e = TypeMismatch \<or> e = SchemaMismatch \<or> e = LibraryError"
proof (induction n arbitrary: m w preds)
  case 0
  then show ?case by simp
next
  case (Suc n)
  obtain r m' where ps: "predict_step lib m cols w = (r, m')" by (cases "predict_step lib m cols w")
  show ?case
  proof (cases r)
    case (Inl e')
    with Suc.prems ps have "e = e'" by simp
    moreover from ps Inl have "fst (predict_step lib m cols w) = Inl e'" by simp
    ultimately show ?thesis using predict_step_errors by blast
  next
    case (Inr yhat)
    with Suc.prems ps have "rollout lib m' cols n (py_slice_from w 1 @ [yhat]) (preds @ [yhat]) = Inl e"
      by simp
    then show ?thesis by (rule Suc.IH)
  qed
qed

lemma make_lag_features_insufficient:
  "(make_lag_features lib (SeriesObj s) lags n_steps freq = Inl InsufficientData) =
   (1 \<le> lags \<and> int (length (s_values s)) < lags)"
  by (auto simp: make_lag_features_def Let_def split: option.splits)

lemma project_insufficient_iff:
  "(project_with_autoregression lib s lags n_steps gp_kw = Inl InsufficientData) =
   (int (length (s_values s)) \<le> lags)"
proof
  assume r: "project_with_autoregression lib s lags n_steps gp_kw = Inl InsufficientData"
  show "int (length (s_values s)) \<le> lags"
  proof (rule ccontr)
    assume "\<not> int (length (s_values s)) \<le> lags"
    then have long: "lags < int (length (s_values s))" by simp
    from r long obtain X y where ds: "supervised_dataset s lags = Inr (X, y)"
      by (cases "supervised_dataset s lags")
         (auto simp: project_with_autoregression_def dest: supervised_dataset_errors)
    obtain fo model where f: "fit lib (gp_init_kwargs lib gp_kw) (DataFrameObj X) (SeriesObj y) = (fo, model)"
      by (cases "fit lib (gp_init_kwargs lib gp_kw) (DataFrameObj X) (SeriesObj y)")
    have fo: "fo = None"
    proof (cases fo)
      case None then show ?thesis .
    next
      case (Some e)
      with r long ds f have "e = InsufficientData" by (simp add: project_with_autoregression_def)
      moreover from f Some have "fst (fit lib (gp_init_kwargs lib gp_kw) (DataFrameObj X) (SeriesObj y)) = Some e"
        by simp
      ultimately show ?thesis using fit_errors by blast
    qed
    from long have nl: "make_lag_features lib (SeriesObj s) lags n_steps None \<noteq> Inl InsufficientData"
      by (simp add: make_lag_features_insufficient)
    with r long ds f fo obtain X_future
      where mlf: "make_lag_features lib (SeriesObj s) lags n_steps None = Inr X_future"
      by (cases "make_lag_features lib (SeriesObj s) lags n_steps None")
         (auto simp: project_with_autoregression_def)
    let ?ro = "rollout lib model (columns X) (nat n_steps) (py_slice_from (s_values s) (- lags)) []"
    from r long ds f fo mlf obtain preds where ro: "?ro = Inr preds"
      by (cases ?ro) (auto simp: project_with_autoregression_def dest: rollout_errors)
    from r long ds f fo mlf ro show False
      by (auto simp: project_with_autoregression_def split: option.splits)
  qed
next
  assume "int (length (s_values s)) \<le> lags"
  then show "project_with_autoregression lib s lags n_steps gp_kw = Inl InsufficientData"
    by (simp add: project_with_autoregression_def)
qed

text \<open>
  Claim C4.  Let the series have at least \<open>lags\<close> values, \<open>lags \<ge> 1\<close> and
  \<open>n_steps \<ge> 1\<close>.  A frame that \<open>make_lag_features\<close> returns has the columns
  \<open>lag1 .. lag{lags}\<close> and \<open>n_steps\<close> rows of \<open>lags\<close> cells.  Row \<open>0\<close> is the last
  \<open>lags\<close> values, newest first.  In row \<open>i\<close> the slots \<open>lag1 .. lag i\<close> (all of them
  when \<open>i\<close> exceeds \<open>lags\<close>) hold \<open>NaN\<close>, and every other slot holds a value of the
  series, the slot \<open>lag (k + 1)\<close> the value \<open>k - i\<close> places before the last: no cell is
  a forecast.  The index is \<open>date_range(last timestamp, n_steps + 1, freq)[1:]\<close> when
  the series has a \<open>DatetimeIndex\<close> and a frequency is given or inferred, and the
  counter \<open>0 .. n_steps - 1\<close> otherwise.  The function returns a frame whenever the
  index is positional, and with a frequency whenever \<open>date_range\<close> returns the
  \<open>n_steps + 1\<close> timestamps asked for.
\<close>

theorem make_lag_features_rows:
  assumes lags: "1 \<le> lags" "lags \<le> int (length (s_values s))"
    and steps: "1 \<le> n_steps"
    and ok: "series_ok s"
  shows "(\<forall>df. make_lag_features lib (SeriesObj s) lags n_steps freq = Inr df \<longrightarrow>
            columns df = lag_columns lags
          \<and> length (rows df) = nat n_steps
          \<and> rows df ! 0 = rev (py_slice_from (s_values s) (- lags))
          \<and> (\<forall>i k. i < nat n_steps \<and> k < nat lags \<longrightarrow>
                 length (rows df ! i) = nat lags
               \<and> rows df ! i ! k =
                   (if k < i then NaN else s_values s ! (length (s_values s) - 1 - (k - i))))
          \<and> (\<forall>ts fq. s_index s = DatetimeIndex ts
                 \<and> (if freq = None then infer_freq lib ts else freq) = Some fq \<longrightarrow>
                 (\<exists>ds. date_range lib (last ts) (n_steps + 1) fq = Some ds
                     \<and> index df = DatetimeIndex (tl ds)))
          \<and> ((\<exists>ls. s_index s = PlainIndex ls)
               \<or> (\<exists>ts. s_index s = DatetimeIndex ts
                     \<and> (if freq = None then infer_freq lib ts else freq) = None) \<longrightarrow>
                 index df = PlainIndex (map int [0..<nat n_steps])))
       \<and> ((\<exists>ls. s_index s = PlainIndex ls)
            \<or> (\<exists>ts. s_index s = DatetimeIndex ts
                  \<and> (if freq = None then infer_freq lib ts else freq) = None) \<longrightarrow>
            (\<exists>df. make_lag_features lib (SeriesObj s) lags n_steps freq = Inr df))
       \<and> (\<forall>ts fq ds. s_index s = DatetimeIndex ts
              \<and> (if freq = None then infer_freq lib ts else freq) = Some fq
              \<and> date_range lib (last ts) (n_steps + 1) fq = Some ds
              \<and> length ds = nat n_steps + 1 \<longrightarrow>
            (\<exists>df. make_lag_features lib (SeriesObj s) lags n_steps freq = Inr df))"
proof -
  let ?vals = "s_values s"
  let ?R = "lag_rows (nat n_steps) (py_slice_from ?vals (- lags)) []"
  let ?mlf = "make_lag_features lib (SeriesObj s) lags n_steps freq"
  let ?eff = "\<lambda>ts. if freq = None then infer_freq lib ts else freq"
  let ?positional = "(\<exists>ls. s_index s = PlainIndex ls)
            \<or> (\<exists>ts. s_index s = DatetimeIndex ts \<and> ?eff ts = None)"
  note eq = make_lag_features_eq [OF lags, of lib n_steps freq]
  from steps have n0: "0 \<le> n_steps" "0 < nat n_steps" by linarith+
  have pos_len: "index_len (PlainIndex (py_range 0 n_steps)) = nat n_steps"
    by (simp add: py_range_length)
  have ne: "ts \<noteq> []" if "s_index s = DatetimeIndex ts" for ts
    using that ok lags by (auto simp: series_ok_def)
  have fi_pos: "future_index_of lib (s_index s) n_steps freq = Some (PlainIndex (py_range 0 n_steps))"
    if "?positional"
    using that by (auto simp: future_index_plain future_index_no_freq)
  have fi_dt: "future_index_of lib (s_index s) n_steps freq =
      (case date_range lib (last ts) (n_steps + 1) fq of
         None \<Rightarrow> None | Some ds \<Rightarrow> Some (DatetimeIndex (tl ds)))"
    if "s_index s = DatetimeIndex ts" "?eff ts = Some fq" for ts fq
    using future_index_freq [OF that(2) ne [OF that(1)], of n_steps] that(1) by simp
  have part1: "columns df = lag_columns lags
          \<and> length (rows df) = nat n_steps
          \<and> rows df ! 0 = rev (py_slice_from ?vals (- lags))
          \<and> (\<forall>i k. i < nat n_steps \<and> k < nat lags \<longrightarrow>
                 length (rows df ! i) = nat lags
               \<and> rows df ! i ! k =
                   (if k < i then NaN else ?vals ! (length ?vals - 1 - (k - i))))
          \<and> (\<forall>ts fq. s_index s = DatetimeIndex ts \<and> ?eff ts = Some fq \<longrightarrow>
                 (\<exists>ds. date_range lib (last ts) (n_steps + 1) fq = Some ds
                     \<and> index df = DatetimeIndex (tl ds)))
          \<and> (?positional \<longrightarrow> index df = PlainIndex (map int [0..<nat n_steps]))"
    if ret: "?mlf = Inr df" for df
  proof -
    from ret eq obtain idx where idx: "future_index_of lib (s_index s) n_steps freq = Some idx"
      and df: "df = \<lparr>columns = lag_columns lags, index = idx, rows = ?R\<rparr>"
      by (auto split: option.splits if_splits)
    have c: "columns df = lag_columns lags" by (simp add: df)
    have l: "length (rows df) = nat n_steps"
      using future_rows(1) [OF lags] by (simp add: df)
    have r0: "rows df ! 0 = rev (py_slice_from ?vals (- lags))"
      using future_rows(4) [OF lags n0(2)] by (simp add: df)
    have cells: "\<forall>i k. i < nat n_steps \<and> k < nat lags \<longrightarrow>
                 length (rows df ! i) = nat lags
               \<and> rows df ! i ! k =
                   (if k < i then NaN else ?vals ! (length ?vals - 1 - (k - i)))"
      using future_rows(2,3) [OF lags] by (simp add: df)
    have dt: "\<exists>ds. date_range lib (last ts) (n_steps + 1) fq = Some ds
                     \<and> index df = DatetimeIndex (tl ds)"
      if "s_index s = DatetimeIndex ts" "?eff ts = Some fq" for ts fq
      using fi_dt [OF that] idx by (auto simp: df split: option.splits)
    have pl: "index df = PlainIndex (map int [0..<nat n_steps])" if "?positional"
      using fi_pos [OF that] idx n0(1) by (simp add: df py_range_0)
    from c l r0 cells dt pl show ?thesis by blast
  qed
  have part2: "\<exists>df. ?mlf = Inr df" if "?positional"
    using eq fi_pos [OF that] pos_len by simp
  have part3: "\<exists>df. ?mlf = Inr df"
    if "s_index s = DatetimeIndex ts" "?eff ts = Some fq"
       "date_range lib (last ts) (n_steps + 1) fq = Some ds" "length ds = nat n_steps + 1"
    for ts fq ds
    using eq fi_dt [OF that(1,2)] that(3,4) by simp
  from part1 part2 part3 show ?thesis by blast
qed

theorem make_lag_features_rows_witness:
  "(1::int) \<le> 2 \<and> 2 \<le> int (length (s_values demo_series)) \<and> (1::int) \<le> 4
   \<and> series_ok demo_series \<and> s_index demo_series = PlainIndex [0, 1, 2, 3, 4]
   \<and> (\<exists>df. make_lag_features demo_library (SeriesObj demo_series) 2 4 None = Inr df
          \<and> columns df = [''lag1'', ''lag2'']
          \<and> rows df = [[Num 5, Num 4], [NaN, Num 5], [NaN, NaN], [NaN, NaN]]
          \<and> index df = PlainIndex [0, 1, 2, 3])"
proof -
  have h1: "(1::int) \<le> 2" by simp
  have h2: "2 \<le> int (length (s_values demo_series))" by (simp add: demo_series_def)
  have h3: "(1::int) \<le> 4" by simp
  have h4: "series_ok demo_series" by (simp add: demo_series_def series_ok_def)
  have h5: "s_index demo_series = PlainIndex [0, 1, 2, 3, 4]" by (simp add: demo_series_def)
  from make_lag_features_rows [OF h1 h2 h3 h4, of demo_library None] h5
  obtain df where df: "make_lag_features demo_library (SeriesObj demo_series) 2 4 None = Inr df"
    by blast
  have "make_lag_features demo_library (SeriesObj demo_series) 2 4 None =
          Inr \<lparr>columns = [''lag1'', ''lag2''], index = PlainIndex [0, 1, 2, 3],
               rows = [[Num 5, Num 4], [NaN, Num 5], [NaN, NaN], [NaN, NaN]]\<rparr>"
    by code_simp
  with df have "columns df = [''lag1'', ''lag2'']"
    and "rows df = [[Num 5, Num 4], [NaN, Num 5], [NaN, NaN], [NaN, NaN]]"
    and "index df = PlainIndex [0, 1, 2, 3]" by auto
  with df h1 h2 h3 h4 h5 show ?thesis by blast
qed

text \<open>
  Claim C8.  \<open>project_with_autoregression\<close> raises \<open>InsufficientData\<close> exactly when
  the series has at most \<open>lags\<close> values.  It does so whatever the library is, hence
  also with a library whose fitting would raise: the outcome is decided before any call
  of \<open>fit\<close>.  The call raises, so it returns no result.
\<close>

theorem project_insufficient_data:
  "((project_with_autoregression lib s lags n_steps gp_kw = Inl InsufficientData) =
      (int (length (s_values s)) \<le> lags))
   \<and> (int (length (s_values s)) \<le> lags \<longrightarrow>
        (\<forall>lib' :: ('k, 'sc, 'g) library.
           project_with_autoregression lib' s lags n_steps gp_kw = Inl InsufficientData))
   \<and> (project_with_autoregression lib s lags n_steps gp_kw = Inl InsufficientData \<longrightarrow>
        (\<forall>r. project_with_autoregression lib s lags n_steps gp_kw \<noteq> Inr r))"
proof (intro conjI impI allI)
  show "(project_with_autoregression lib s lags n_steps gp_kw = Inl InsufficientData) =
      (int (length (s_values s)) \<le> lags)"
    by (rule project_insufficient_iff)
next
  fix lib' :: "('k, 'sc, 'g) library"
  assume "int (length (s_values s)) \<le> lags"
  then show "project_with_autoregression lib' s lags n_steps gp_kw = Inl InsufficientData"
    by (simp only: project_insufficient_iff)
next
  fix r
  assume "project_with_autoregression lib s lags n_steps gp_kw = Inl InsufficientData"
  then show "project_with_autoregression lib s lags n_steps gp_kw \<noteq> Inr r"
    by simp
qed

theorem project_insufficient_data_witness:
  "int (length (s_values demo_series)) \<le> 5
   \<and> project_with_autoregression demo_library demo_series 5 3 demo_kwargs = Inl InsufficientData
   \<and> \<not> int (length (s_values demo_series)) \<le> 2
   \<and> project_with_autoregression demo_library demo_series 2 3 demo_kwargs \<noteq> Inl InsufficientData"
proof -
  have h1: "int (length (s_values demo_series)) \<le> 5" by (simp add: demo_series_def)
  have h2: "\<not> int (length (s_values demo_series)) \<le> 2" by (simp add: demo_series_def)
  from project_insufficient_data [of demo_library demo_series 5 3 demo_kwargs] h1
  have a: "project_with_autoregression demo_library demo_series 5 3 demo_kwargs = Inl InsufficientData"
    by blast
  from project_insufficient_data [of demo_library demo_series 2 3 demo_kwargs] h2
  have b: "project_with_autoregression demo_library demo_series 2 3 demo_kwargs \<noteq> Inl InsufficientData"
    by blast
  from h1 h2 a b show ?thesis by blast
qed

text \<open>
  Claim C10.  For \<open>lags \<ge> 1\<close>, \<open>make_lag_features\<close> raises \<open>InsufficientData\<close> exactly
  when the series has fewer than \<open>lags\<close> values, while
  \<open>project_with_autoregression\<close> raises it exactly when the series has at most \<open>lags\<close>
  values.  A series of exactly \<open>lags\<close> values passes the first check and fails the
  second, and with a positional index \<open>make_lag_features\<close> returns a frame for it.
\<close>

theorem make_lag_features_weaker_precondition:
  assumes "1 \<le> lags"
  shows "((make_lag_features lib (SeriesObj s) lags n_steps freq = Inl InsufficientData) =
            (int (length (s_values s)) < lags))
       \<and> ((project_with_autoregression lib s lags n_steps gp_kw = Inl InsufficientData) =
            (int (length (s_values s)) \<le> lags))
       \<and> (int (length (s_values s)) = lags \<longrightarrow>
            make_lag_features lib (SeriesObj s) lags n_steps freq \<noteq> Inl InsufficientData
          \<and> project_with_autoregression lib s lags n_steps gp_kw = Inl InsufficientData)
       \<and> (lags \<le> int (length (s_values s)) \<and> (\<exists>ls. s_index s = PlainIndex ls) \<longrightarrow>
            (\<exists>df. make_lag_features lib (SeriesObj s) lags n_steps freq = Inr df))"
proof (intro conjI impI)
  show "(make_lag_features lib (SeriesObj s) lags n_steps freq = Inl InsufficientData) =
            (int (length (s_values s)) < lags)"
    using assms by (simp add: make_lag_features_insufficient)
  show p: "(project_with_autoregression lib s lags n_steps gp_kw = Inl InsufficientData) =
            (int (length (s_values s)) \<le> lags)"
    by (rule project_insufficient_iff)
next
  assume "int (length (s_values s)) = lags"
  then show "make_lag_features lib (SeriesObj s) lags n_steps freq \<noteq> Inl InsufficientData"
    by (simp add: make_lag_features_insufficient)
next
  assume "int (length (s_values s)) = lags"
  then show "project_with_autoregression lib s lags n_steps gp_kw = Inl InsufficientData"
    by (simp add: project_with_autoregression_def)
next
  assume a: "lags \<le> int (length (s_values s)) \<and> (\<exists>ls. s_index s = PlainIndex ls)"
  then obtain ls where ls: "s_index s = PlainIndex ls" by blast
  have "index_len (PlainIndex (py_range 0 n_steps)) = nat n_steps"
    by (simp add: py_range_length)
  with a ls show "\<exists>df. make_lag_features lib (SeriesObj s) lags n_steps freq = Inr df"
    using make_lag_features_eq [OF assms, of s lib n_steps freq]
    by (simp add: future_index_plain)
qed

theorem make_lag_features_weaker_precondition_witness:
  "(1::int) \<le> 5 \<and> int (length (s_values demo_series)) = 5
   \<and> s_index demo_series = PlainIndex [0, 1, 2, 3, 4]
   \<and> make_lag_features demo_library (SeriesObj demo_series) 5 2 None \<noteq> Inl InsufficientData
   \<and> project_with_autoregression demo_library demo_series 5 2 demo_kwargs = Inl InsufficientData
   \<and> (\<exists>df. make_lag_features demo_library (SeriesObj demo_series) 5 2 None = Inr df)"
proof -
  have h1: "(1::int) \<le> 5" by simp
  have h2: "int (length (s_values demo_series)) = 5" by (simp add: demo_series_def)
  have h3: "s_index demo_series = PlainIndex [0, 1, 2, 3, 4]" by (simp add: demo_series_def)
  from make_lag_features_weaker_precondition [OF h1, of demo_library demo_series 2 None demo_kwargs]
    h2 h3 show ?thesis by auto
qed

section \<open>The autoregressive forecast\<close>













end
